theory Spec2Isabelle
  imports Complex_Main
begin

section \<open>Disaster sentinel: the program\<close>

text \<open>
  The program is one Python module, \<^verbatim>\<open>main.py\<close>: a normalizer of upstream event
  records, a cache with a failure counter and a resync on recovery, a tiered risk
  classification by distance, a per-user alert throttle and an alert log. Its functions
  are embedded one by one. Python strings are lists of characters whose code points lie
  below 256; Python's unbounded integers are \<^typ>\<open>int\<close>; an \<^verbatim>\<open>Optional[str]\<close>
  result is a \<^typ>\<open>string option\<close>; an exception is the left summand of a sum.
\<close>

subsection \<open>Strings: \<^verbatim>\<open>str.lower\<close> and \<^verbatim>\<open>in\<close>\<close>

text \<open>
  \<^verbatim>\<open>str.lower()\<close> on code points below 256 maps \<^verbatim>\<open>A\<close>..\<^verbatim>\<open>Z\<close> and the
  accented capitals 192..222 (the multiplication sign 215 apart) 32 places up and leaves
  every other character alone.
\<close>

definition lower_char :: "char \<Rightarrow> char" where
  "lower_char c =
     (let n = (of_char c :: nat)
      in if (65 \<le> n \<and> n \<le> 90) \<or> (192 \<le> n \<and> n \<le> 222 \<and> n \<noteq> 215)
         then char_of (n + 32) else c)"

definition py_lower :: "string \<Rightarrow> string" where
  "py_lower s = map lower_char s"

text \<open>\<^verbatim>\<open>s.startswith(p)\<close> and the substring test \<^verbatim>\<open>sub in s\<close>.\<close>

fun starts_with :: "string \<Rightarrow> string \<Rightarrow> bool" where
  "starts_with [] s = True"
| "starts_with (p # ps) [] = False"
| "starts_with (p # ps) (c # cs) = (p = c \<and> starts_with ps cs)"

fun str_in :: "string \<Rightarrow> string \<Rightarrow> bool" where
  "str_in sub [] = (sub = [])"
| "str_in sub (c # cs) = (starts_with sub (c # cs) \<or> str_in sub cs)"

subsection \<open>\<^verbatim>\<open>map_gdacs_type\<close>\<close>

text \<open>
  \<^verbatim>\<open>
  def map_gdacs_type(gdacs_title: str) -> str:
      title = gdacs_title.lower()
      if "fire" in title or "wildfire" in title:
          return "Wildfire"
      if "storm" in title or "cyclone" in title or "hurricane" in title or "typhoon" in title:
          return "Hurricane"
      if "flood" in title:
          return "Flood"
      if "volcano" in title:
          return "Volcano"
      if "earthquake" in title:
          return "Earthquake"
      return gdacs_title
  \<close>
\<close>

definition map_gdacs_type :: "string \<Rightarrow> string" where
  "map_gdacs_type gdacs_title =
     (let title = py_lower gdacs_title
      in if str_in ''fire'' title \<or> str_in ''wildfire'' title then ''Wildfire''
         else if str_in ''storm'' title \<or> str_in ''cyclone'' title
                 \<or> str_in ''hurricane'' title \<or> str_in ''typhoon'' title then ''Hurricane''
         else if str_in ''flood'' title then ''Flood''
         else if str_in ''volcano'' title then ''Volcano''
         else if str_in ''earthquake'' title then ''Earthquake''
         else gdacs_title)"

text \<open>
  The specification's notion, in its own words: a title \<^emph>\<open>contains\<close> a keyword,
  case-insensitively, when some contiguous piece of the title is the keyword once
  lower-cased.
\<close>

definition contains_ci :: "string \<Rightarrow> string \<Rightarrow> bool" where
  "contains_ci kw s = (\<exists>pre mid post. s = pre @ mid @ post \<and> py_lower mid = kw)"

subsection \<open>\<^verbatim>\<open>categorize_risk\<close>\<close>

text \<open>
  \<^verbatim>\<open>
  RISK_RADIUS = {"Hurricane": 100, "Flood": 50, "Wildfire": 75, "Tornado": 25, "Earthquake": 60}

  def categorize_risk(user_dist: float, disaster_type: str) -> Optional[str]:
      base_radius = RISK_RADIUS.get(disaster_type, 50)
      if user_dist <= 0.5 * base_radius:
          return "High"
      elif user_dist <= base_radius:
          return "Moderate"
      elif user_dist <= 1.5 * base_radius:
          return "Low"
      return None
  \<close>
  The distance is a real number: every threshold of the table (12.5 up to 150) is a
  binary fraction that a double holds exactly, and the comparisons of doubles are exact.
\<close>

definition RISK_RADIUS :: "(string \<times> int) list" where
  "RISK_RADIUS =
     [(''Hurricane'', 100), (''Flood'', 50), (''Wildfire'', 75), (''Tornado'', 25),
      (''Earthquake'', 60)]"

definition base_radius_of :: "string \<Rightarrow> int" where
  "base_radius_of disaster_type =
     (case map_of RISK_RADIUS disaster_type of None \<Rightarrow> 50 | Some r \<Rightarrow> r)"

definition categorize_risk :: "real \<Rightarrow> string \<Rightarrow> string option" where
  "categorize_risk user_dist disaster_type =
     (let base_radius = base_radius_of disaster_type
      in if user_dist \<le> 0.5 * real_of_int base_radius then Some ''High''
         else if user_dist \<le> real_of_int base_radius then Some ''Moderate''
         else if user_dist \<le> 1.5 * real_of_int base_radius then Some ''Low''
         else None)"

text \<open>How severe a tier is: no tier, then Low, Moderate, High.\<close>

definition tier_rank :: "string option \<Rightarrow> nat" where
  "tier_rank t =
     (if t = Some ''High'' then 3 else if t = Some ''Moderate'' then 2
      else if t = Some ''Low'' then 1 else 0)"

subsection \<open>\<^verbatim>\<open>get_alerts\<close>\<close>

text \<open>
  \<^verbatim>\<open>
  def get_alerts(limit: int = 20):
      if limit <= 0:
          return []
      if limit > 1000:
          limit = 1000
      return ALERTS[-limit:]
  \<close>
  A slice \<^verbatim>\<open>xs[i:]\<close> starts at \<^verbatim>\<open>i\<close>, counted from the end when \<^verbatim>\<open>i\<close> is
  negative, and is clipped to the list. The handler reads the global log; the model
  returns the response together with the log as it is afterwards.
\<close>

definition py_slice_from :: "'a list \<Rightarrow> int \<Rightarrow> 'a list" where
  "py_slice_from xs i =
     (let n = int (length xs);
          start = (if i < 0 then max 0 (n + i) else min i n)
      in drop (nat start) xs)"

definition get_alerts :: "'a list \<Rightarrow> int \<Rightarrow> 'a list \<times> 'a list" where
  "get_alerts ALERTS limit =
     (if limit \<le> 0 then ([], ALERTS)
      else let limit' = (if limit > 1000 then 1000 else limit)
           in (py_slice_from ALERTS (- limit'), ALERTS))"

definition default_limit :: int where
  "default_limit = 20"

subsection \<open>Python values, exceptions and the library\<close>

text \<open>
  A decoded JSON document is a Python value. \<^verbatim>\<open>json\<close> reads the literals
  \<^verbatim>\<open>Infinity\<close>, \<^verbatim>\<open>-Infinity\<close> and \<^verbatim>\<open>NaN\<close> and numbers beyond the range of a
  double as non-finite floats, so a float is a real number or one of three special
  values. A finite float carries its exact value; rounding to a double is not modelled.
  A dictionary is the list of its items, with distinct keys.
\<close>

datatype pyfloat = Fin real | PosInf | NegInf | NaN

datatype pyval =
    PNone
  | PBool bool
  | PInt int
  | PFloat pyfloat
  | PStr string
  | PList "pyval list"
  | PDict "(string \<times> pyval) list"

datatype exn = ValueError | TypeError | OSError | OverflowError | AttributeError

text \<open>
  A \<^verbatim>\<open>datetime\<close> is the reading of its wall clock, in microseconds since
  1970-01-01T00:00:00, and its UTC offset in microseconds; a naive one has no offset.
  \<^verbatim>\<open>datetime.now(timezone.utc)\<close> at the instant \<open>t\<close> is \<open>utc_now t\<close>;
  \<^verbatim>\<open>if d.tzinfo is None: d = d.replace(tzinfo=timezone.utc)\<close> is \<open>to_utc\<close>; aware
  datetimes are compared and subtracted by their instants.
\<close>

record datetime =
  wall :: int
  tzoff :: "int option"

definition utc_now :: "int \<Rightarrow> datetime" where
  "utc_now t = \<lparr>wall = t, tzoff = Some 0\<rparr>"

definition to_utc :: "datetime \<Rightarrow> datetime" where
  "to_utc d = (case tzoff d of None \<Rightarrow> d\<lparr>tzoff := Some 0\<rparr> | Some off \<Rightarrow> d)"

definition instant :: "datetime \<Rightarrow> int" where
  "instant d = (case tzoff d of None \<Rightarrow> wall d | Some off \<Rightarrow> wall d - off)"

definition hours :: "int \<Rightarrow> int" where
  "hours h = h * 3600000000"

text \<open>
  The functions of Python's library that the module calls and that are not part of it
  are parameters of the model: \<^verbatim>\<open>float(s)\<close> on a string (\<open>None\<close> for ValueError),
  \<^verbatim>\<open>datetime.fromisoformat\<close> (\<open>None\<close> for ValueError), \<^verbatim>\<open>datetime.isoformat\<close>,
  \<^verbatim>\<open>datetime.fromtimestamp(x, tz=timezone.utc)\<close>, and \<^verbatim>\<open>str(x)\<close> on a value that
  is not a string. Every theorem below holds for whatever these functions are.
\<close>

record pylib =
  float_of_str :: "string \<Rightarrow> pyfloat option"
  fromisoformat :: "string \<Rightarrow> datetime option"
  isoformat :: "datetime \<Rightarrow> string"
  fromtimestamp :: "pyfloat \<Rightarrow> exn + datetime"
  str_of :: "pyval \<Rightarrow> string"

text \<open>Truth value testing, \<^verbatim>\<open>a or b\<close>, \<^verbatim>\<open>d.get(k)\<close>, \<^verbatim>\<open>d.get(k, default)\<close>.\<close>

fun truthy :: "pyval \<Rightarrow> bool" where
  "truthy PNone = False"
| "truthy (PBool b) = b"
| "truthy (PInt i) = (i \<noteq> 0)"
| "truthy (PFloat f) = (f \<noteq> Fin 0)"
| "truthy (PStr s) = (s \<noteq> [])"
| "truthy (PList xs) = (xs \<noteq> [])"
| "truthy (PDict d) = (d \<noteq> [])"

definition py_or :: "pyval \<Rightarrow> pyval \<Rightarrow> pyval" where
  "py_or a b = (if truthy a then a else b)"

definition dict_get_default :: "(string \<times> pyval) list \<Rightarrow> string \<Rightarrow> pyval \<Rightarrow> pyval" where
  "dict_get_default d k dflt = (case map_of d k of None \<Rightarrow> dflt | Some v \<Rightarrow> v)"

definition dict_get :: "(string \<times> pyval) list \<Rightarrow> string \<Rightarrow> pyval" where
  "dict_get d k = dict_get_default d k PNone"

text \<open>
  \<^verbatim>\<open>float(x)\<close>: an integer converts unless it rounds beyond the largest double
  (OverflowError), a string goes through the library, a list, a dictionary or
  \<^verbatim>\<open>None\<close> is a TypeError. \<^verbatim>\<open>str(x)\<close> is the identity on a string.
\<close>

definition int_to_float :: "int \<Rightarrow> exn + pyfloat" where
  "int_to_float i =
     (if \<bar>i\<bar> < 2 ^ 1024 - 2 ^ 970 then Inr (Fin (real_of_int i)) else Inl OverflowError)"

fun py_float :: "pylib \<Rightarrow> pyval \<Rightarrow> exn + pyfloat" where
  "py_float L PNone = Inl TypeError"
| "py_float L (PBool b) = Inr (Fin (if b then 1 else 0))"
| "py_float L (PInt i) = int_to_float i"
| "py_float L (PFloat f) = Inr f"
| "py_float L (PStr s) =
     (case float_of_str L s of None \<Rightarrow> Inl ValueError | Some f \<Rightarrow> Inr f)"
| "py_float L (PList xs) = Inl TypeError"
| "py_float L (PDict d) = Inl TypeError"

definition py_str :: "pylib \<Rightarrow> pyval \<Rightarrow> string" where
  "py_str L v = (case v of PStr s \<Rightarrow> s | _ \<Rightarrow> str_of L v)"

text \<open>\<^verbatim>\<open>s.replace('Z', '+00:00')\<close> and \<^verbatim>\<open>s.endswith('Z')\<close>.\<close>

fun replace_Z :: "string \<Rightarrow> string" where
  "replace_Z [] = []"
| "replace_Z (c # cs) =
     (if c = CHR ''Z'' then ''+00:00'' @ replace_Z cs else c # replace_Z cs)"

definition endswith_Z :: "string \<Rightarrow> bool" where
  "endswith_Z s = (s \<noteq> [] \<and> last s = CHR ''Z'')"

subsection \<open>The event normalizer: the loop body of \<^verbatim>\<open>fetch_gdacs_events\<close>\<close>

text \<open>
  \<^verbatim>\<open>
  lat = ev.get("latitude")
  if lat is None:
      lat = ev.get("lat")
  lon = ev.get("longitude")
  if lon is None:
      lon = ev.get("lon")
  if lon is None:
      lon = ev.get("lng")
  if lat is None or lon is None:
      continue
  try:
      lat_float = float(lat)
      lon_float = float(lon)
  except (ValueError, TypeError):
      continue
  \<close>
  The outcome is an exception that leaves the loop, \<open>Inr None\<close> for \<^verbatim>\<open>continue\<close>,
  or the two floats.
\<close>

definition probe_lat :: "(string \<times> pyval) list \<Rightarrow> pyval" where
  "probe_lat ev =
     (let lat = dict_get ev ''latitude''
      in if lat = PNone then dict_get ev ''lat'' else lat)"

definition probe_lon :: "(string \<times> pyval) list \<Rightarrow> pyval" where
  "probe_lon ev =
     (let lon = dict_get ev ''longitude'';
          lon = (if lon = PNone then dict_get ev ''lon'' else lon)
      in if lon = PNone then dict_get ev ''lng'' else lon)"

definition caught_by_coords :: "exn \<Rightarrow> bool" where
  "caught_by_coords e = (e = ValueError \<or> e = TypeError)"

definition parse_coords :: "pylib \<Rightarrow> (string \<times> pyval) list \<Rightarrow> exn + (pyfloat \<times> pyfloat) option" where
  "parse_coords L ev =
     (let lat = probe_lat ev; lon = probe_lon ev
      in if lat = PNone \<or> lon = PNone then Inr None
         else case py_float L lat of
                Inl e \<Rightarrow> if caught_by_coords e then Inr None else Inl e
              | Inr lat_float \<Rightarrow>
                  (case py_float L lon of
                     Inl e \<Rightarrow> if caught_by_coords e then Inr None else Inl e
                   | Inr lon_float \<Rightarrow> Inr (Some (lat_float, lon_float))))"

text \<open>
  \<^verbatim>\<open>
  disaster_type = ev.get("eventtype") or ev.get("title") or ev.get("eventType") or "Disaster"
  mapped_type = map_gdacs_type(disaster_type)
  \<close>
  A value that is not a string has no \<^verbatim>\<open>lower\<close>: AttributeError.
\<close>

definition disaster_type_of :: "(string \<times> pyval) list \<Rightarrow> pyval" where
  "disaster_type_of ev =
     py_or (py_or (py_or (dict_get ev ''eventtype'') (dict_get ev ''title''))
                  (dict_get ev ''eventType''))
           (PStr ''Disaster'')"

definition mapped_type_of :: "(string \<times> pyval) list \<Rightarrow> exn + string" where
  "mapped_type_of ev =
     (case disaster_type_of ev of
        PStr s \<Rightarrow> Inr (map_gdacs_type s)
      | _ \<Rightarrow> Inl AttributeError)"

text \<open>
  \<^verbatim>\<open>
  event_timestamp = None
  for ts_field in ["fromdate", "eventdate", "publisheddate", "date", "fromDate", "eventDate"]:
      ts_value = ev.get(ts_field)
      if ts_value:
          try:
              if isinstance(ts_value, str):
                  event_timestamp = datetime.fromisoformat(ts_value.replace('Z', '+00:00')).isoformat()
              elif isinstance(ts_value, (int, float)):
                  if ts_value > 1e10:
                      event_timestamp = datetime.fromtimestamp(ts_value / 1000.0, tz=timezone.utc).isoformat()
                  else:
                      event_timestamp = datetime.fromtimestamp(ts_value, tz=timezone.utc).isoformat()
              break
          except (ValueError, TypeError, OSError):
              continue
  if event_timestamp is None:
      event_timestamp = datetime.now(timezone.utc).isoformat()
  \<close>
  One turn of the loop either sets the timestamp and breaks, goes on to the next field
  (a falsy value, or an exception the handler catches), breaks with nothing set (a
  truthy value that is neither text nor a number), or raises. A \<^verbatim>\<open>bool\<close> is an
  \<^verbatim>\<open>int\<close> in Python.
\<close>

datatype ts_step = Parsed string | Next_field | Stop | Raise exn

definition float_gt_1e10 :: "pyfloat \<Rightarrow> bool" where
  "float_gt_1e10 f = (case f of Fin x \<Rightarrow> x > 10 ^ 10 | PosInf \<Rightarrow> True | _ \<Rightarrow> False)"

definition float_div_1000 :: "pyfloat \<Rightarrow> pyfloat" where
  "float_div_1000 f = (case f of Fin x \<Rightarrow> Fin (x / 1000) | _ \<Rightarrow> f)"

definition timestamp_arg :: "pyval \<Rightarrow> (exn + pyfloat) option" where
  "timestamp_arg v =
     (case v of
        PBool b \<Rightarrow> Some (Inr (Fin (if b then 1 else 0)))
      | PInt i \<Rightarrow>
          Some (if real_of_int i > 10 ^ 10
                then (case int_to_float i of Inl e \<Rightarrow> Inl e | Inr f \<Rightarrow> Inr (float_div_1000 f))
                else Inr (Fin (real_of_int i)))
      | PFloat f \<Rightarrow> Some (Inr (if float_gt_1e10 f then float_div_1000 f else f))
      | _ \<Rightarrow> None)"

definition caught_by_ts :: "exn \<Rightarrow> bool" where
  "caught_by_ts e = (e = ValueError \<or> e = TypeError \<or> e = OSError)"

definition ts_handler :: "exn \<Rightarrow> ts_step" where
  "ts_handler e = (if caught_by_ts e then Next_field else Raise e)"

definition parse_ts_value :: "pylib \<Rightarrow> pyval \<Rightarrow> ts_step" where
  "parse_ts_value L ts_value =
     (if \<not> truthy ts_value then Next_field
      else case ts_value of
             PStr s \<Rightarrow>
               (case fromisoformat L (replace_Z s) of
                  None \<Rightarrow> ts_handler ValueError
                | Some d \<Rightarrow> Parsed (isoformat L d))
           | _ \<Rightarrow>
               (case timestamp_arg ts_value of
                  None \<Rightarrow> Stop
                | Some (Inl e) \<Rightarrow> ts_handler e
                | Some (Inr x) \<Rightarrow>
                    (case fromtimestamp L x of
                       Inl e \<Rightarrow> ts_handler e
                     | Inr d \<Rightarrow> Parsed (isoformat L d))))"

definition ts_fields :: "string list" where
  "ts_fields = [''fromdate'', ''eventdate'', ''publisheddate'', ''date'', ''fromDate'', ''eventDate'']"

fun scan_timestamp :: "pylib \<Rightarrow> (string \<times> pyval) list \<Rightarrow> string list \<Rightarrow> exn + string option" where
  "scan_timestamp L ev [] = Inr None"
| "scan_timestamp L ev (ts_field # rest) =
     (case parse_ts_value L (dict_get ev ts_field) of
        Parsed s \<Rightarrow> Inr (Some s)
      | Next_field \<Rightarrow> scan_timestamp L ev rest
      | Stop \<Rightarrow> Inr None
      | Raise e \<Rightarrow> Inl e)"

definition event_timestamp_of :: "pylib \<Rightarrow> int \<Rightarrow> (string \<times> pyval) list \<Rightarrow> exn + string" where
  "event_timestamp_of L now ev =
     (case scan_timestamp L ev ts_fields of
        Inl e \<Rightarrow> Inl e
      | Inr None \<Rightarrow> Inr (isoformat L (utc_now now))
      | Inr (Some s) \<Rightarrow> Inr s)"

text \<open>
  \<^verbatim>\<open>
  events.append({
      "id": str(ev.get("eventid") or ev.get("id") or ev.get("eventId", "")),
      "type": mapped_type,
      "coordinates": [lat_float, lon_float],
      "severity": ev.get("alertlevel") or ev.get("alertLevel") or "unknown",
      "timestamp": event_timestamp,
  })
  \<close>
\<close>

record event =
  ev_id :: string
  ev_type :: string
  coordinates :: "pyfloat \<times> pyfloat"
  severity :: pyval
  timestamp :: string

definition make_event ::
  "pylib \<Rightarrow> (string \<times> pyval) list \<Rightarrow> string \<Rightarrow> pyfloat \<times> pyfloat \<Rightarrow> string \<Rightarrow> event" where
  "make_event L ev mapped_type coords event_timestamp =
     \<lparr>ev_id = py_str L (py_or (py_or (dict_get ev ''eventid'') (dict_get ev ''id''))
                              (dict_get_default ev ''eventId'' (PStr ''''))),
      ev_type = mapped_type,
      coordinates = coords,
      severity = py_or (py_or (dict_get ev ''alertlevel'') (dict_get ev ''alertLevel''))
                       (PStr ''unknown''),
      timestamp = event_timestamp\<rparr>"

text \<open>
  The whole body, for one element of the payload. An element that is not a dictionary
  has no \<^verbatim>\<open>get\<close>: AttributeError. The clock is read once per fetch tick.
\<close>

definition normalize_fields ::
  "pylib \<Rightarrow> int \<Rightarrow> (string \<times> pyval) list \<Rightarrow> exn + event option" where
  "normalize_fields L now ev =
     (case parse_coords L ev of
        Inl e \<Rightarrow> Inl e
      | Inr None \<Rightarrow> Inr None
      | Inr (Some coords) \<Rightarrow>
          (case mapped_type_of ev of
             Inl e \<Rightarrow> Inl e
           | Inr mapped_type \<Rightarrow>
               (case event_timestamp_of L now ev of
                  Inl e \<Rightarrow> Inl e
                | Inr event_timestamp \<Rightarrow>
                    Inr (Some (make_event L ev mapped_type coords event_timestamp)))))"

definition normalize_record :: "pylib \<Rightarrow> int \<Rightarrow> pyval \<Rightarrow> exn + event option" where
  "normalize_record L now v =
     (case v of PDict ev \<Rightarrow> normalize_fields L now ev | _ \<Rightarrow> Inl AttributeError)"

subsection \<open>\<^verbatim>\<open>fetch_gdacs_events\<close> and \<^verbatim>\<open>fetch_recent_gdacs_events\<close>\<close>

text \<open>
  \<^verbatim>\<open>
  try:
      resp = requests.get(url, timeout=10)
      resp.raise_for_status()
      data = resp.json()
  except Exception as e:
      print(f"GDACS fetch failed: {e}")
      return []
  events = []
  if isinstance(data, dict):
      data = data.get("results", [])
  for ev in data:
      ...
  return events
  \<close>
  What the network answers is an input of the model: \<open>Failed\<close> when the request, the
  status check or the JSON decoding raises, \<open>Body data\<close> with the decoded document
  otherwise. The loop runs outside the \<^verbatim>\<open>try\<close>: an exception of its body leaves the
  function. Iterating a list gives its elements, a dictionary its keys, a string its
  characters; anything else is not iterable (TypeError).
\<close>

datatype response = Failed | Body pyval

definition results_of :: "pyval \<Rightarrow> pyval" where
  "results_of data =
     (case data of PDict d \<Rightarrow> dict_get_default d ''results'' (PList []) | _ \<Rightarrow> data)"

definition py_iter :: "pyval \<Rightarrow> exn + pyval list" where
  "py_iter v =
     (case v of
        PList xs \<Rightarrow> Inr xs
      | PDict d \<Rightarrow> Inr (map (\<lambda>kv. PStr (fst kv)) d)
      | PStr s \<Rightarrow> Inr (map (\<lambda>c. PStr [c]) s)
      | _ \<Rightarrow> Inl TypeError)"

fun collect :: "(pyval \<Rightarrow> exn + event option) \<Rightarrow> pyval list \<Rightarrow> event list \<Rightarrow> exn + event list" where
  "collect body [] events = Inr events"
| "collect body (ev # rest) events =
     (case body ev of
        Inl e \<Rightarrow> Inl e
      | Inr None \<Rightarrow> collect body rest events
      | Inr (Some x) \<Rightarrow> collect body rest (events @ [x]))"

definition fetch_loop :: "(pyval \<Rightarrow> exn + event option) \<Rightarrow> response \<Rightarrow> exn + event list" where
  "fetch_loop body resp =
     (case resp of
        Failed \<Rightarrow> Inr []
      | Body data \<Rightarrow>
          (case py_iter (results_of data) of
             Inl e \<Rightarrow> Inl e
           | Inr items \<Rightarrow> collect body items []))"

definition fetch_gdacs_events :: "pylib \<Rightarrow> int \<Rightarrow> response \<Rightarrow> exn + event list" where
  "fetch_gdacs_events L now resp = fetch_loop (normalize_record L now) resp"

definition fetch_disaster_data :: "pylib \<Rightarrow> int \<Rightarrow> response \<Rightarrow> exn + event list" where
  "fetch_disaster_data L now resp = fetch_gdacs_events L now resp"

text \<open>
  The body of the loop of \<^verbatim>\<open>fetch_recent_gdacs_events(since)\<close> is the same up to the
  timestamp, and then keeps the event when its timestamp is not before \<^verbatim>\<open>since\<close>, or
  does not parse:
  \<^verbatim>\<open>
  try:
      event_dt = datetime.fromisoformat(event_timestamp.replace('Z', '+00:00'))
      if event_dt.tzinfo is None:
          event_dt = event_dt.replace(tzinfo=timezone.utc)
      if event_dt >= since:
          events.append({...})
  except (ValueError, TypeError):
      events.append({...})
  \<close>
\<close>

definition keep_recent :: "pylib \<Rightarrow> datetime \<Rightarrow> string \<Rightarrow> bool" where
  "keep_recent L since event_timestamp =
     (case fromisoformat L (replace_Z event_timestamp) of
        None \<Rightarrow> True
      | Some event_dt \<Rightarrow> instant (to_utc event_dt) \<ge> instant since)"

definition normalize_recent_record ::
  "pylib \<Rightarrow> int \<Rightarrow> datetime \<Rightarrow> pyval \<Rightarrow> exn + event option" where
  "normalize_recent_record L now since v =
     (case normalize_record L now v of
        Inl e \<Rightarrow> Inl e
      | Inr None \<Rightarrow> Inr None
      | Inr (Some x) \<Rightarrow> if keep_recent L since (timestamp x) then Inr (Some x) else Inr None)"

definition fetch_recent_gdacs_events ::
  "pylib \<Rightarrow> int \<Rightarrow> datetime \<Rightarrow> response \<Rightarrow> exn + event list" where
  "fetch_recent_gdacs_events L now since resp =
     fetch_loop (normalize_recent_record L now since) resp"

subsection \<open>\<^verbatim>\<open>safe_update_events\<close>\<close>

text \<open>
  \<^verbatim>\<open>
  def safe_update_events() -> None:
      global CACHE
      try:
          events = fetch_disaster_data()
          if CACHE.get("consecutive_failures", 0) > 1:
              since = datetime.now(timezone.utc) - timedelta(hours=24)
              recent_events = fetch_recent_gdacs_events(since)
              existing_ids = {e.get("id") for e in CACHE.get("events", [])}
              for event in recent_events:
                  if event.get("id") not in existing_ids:
                      events.append(event)
          CACHE["events"] = events
          CACHE["last_update"] = datetime.now(timezone.utc).isoformat()
          CACHE["consecutive_failures"] = 0
          save_cache()
      except Exception as e:
          CACHE["consecutive_failures"] = CACHE.get("consecutive_failures", 0) + 1
          ...
          save_cache()
  \<close>
  The tick takes the answers of the network to its first and to its second request and
  returns the cache together with the number of requests it made.
\<close>

record cache =
  events :: "event list"
  last_update :: "string option"
  consecutive_failures :: int

definition existing_ids_of :: "event list \<Rightarrow> string set" where
  "existing_ids_of cached = set (map ev_id cached)"

fun append_new :: "string set \<Rightarrow> event list \<Rightarrow> event list \<Rightarrow> event list" where
  "append_new existing_ids [] fetched = fetched"
| "append_new existing_ids (event # rest) fetched =
     append_new existing_ids rest
       (if ev_id event \<notin> existing_ids then fetched @ [event] else fetched)"

definition failed_tick :: "cache \<Rightarrow> cache" where
  "failed_tick CACHE = CACHE\<lparr>consecutive_failures := consecutive_failures CACHE + 1\<rparr>"

definition safe_update_events ::
  "pylib \<Rightarrow> int \<Rightarrow> response \<Rightarrow> response \<Rightarrow> cache \<Rightarrow> cache \<times> nat" where
  "safe_update_events L now first_resp second_resp CACHE =
     (case fetch_disaster_data L now first_resp of
        Inl e \<Rightarrow> (failed_tick CACHE, 1)
      | Inr fetched \<Rightarrow>
          if consecutive_failures CACHE > 1
          then (let since = utc_now (now - hours 24)
                in case fetch_recent_gdacs_events L now since second_resp of
                     Inl e \<Rightarrow> (failed_tick CACHE, 2)
                   | Inr recent_events \<Rightarrow>
                       (CACHE\<lparr>events :=
                                 append_new (existing_ids_of (events CACHE)) recent_events fetched,
                               last_update := Some (isoformat L (utc_now now)),
                               consecutive_failures := 0\<rparr>, 2))
          else (CACHE\<lparr>events := fetched,
                       last_update := Some (isoformat L (utc_now now)),
                       consecutive_failures := 0\<rparr>, 1))"

subsection \<open>\<^verbatim>\<open>should_send_alert\<close>\<close>

text \<open>
  \<^verbatim>\<open>
  def should_send_alert(user_id: str, min_hours: int = 6) -> bool:
      now = datetime.now(timezone.utc)
      last_str = LAST_ALERT.get(user_id)
      if not last_str:
          LAST_ALERT[user_id] = now.isoformat()
          save_last_alert()
          return True
      try:
          last = datetime.fromisoformat(last_str.replace('Z', '+00:00'))
          if last.tzinfo is None:
              last = last.replace(tzinfo=timezone.utc)
          if (now - last) > timedelta(hours=min_hours):
              LAST_ALERT[user_id] = now.isoformat()
              save_last_alert()
              return True
      except (ValueError, TypeError):
          LAST_ALERT[user_id] = now.isoformat()
          save_last_alert()
          return True
      return False
  \<close>
  \<^verbatim>\<open>LAST_ALERT\<close> is a \<^verbatim>\<open>Dict[str, str]\<close>; the function returns its answer and the
  dictionary as it leaves it.
\<close>

definition should_send_alert ::
  "pylib \<Rightarrow> int \<Rightarrow> (string \<rightharpoonup> string) \<Rightarrow> string \<Rightarrow> int \<Rightarrow> bool \<times> (string \<rightharpoonup> string)" where
  "should_send_alert L now LAST_ALERT user_id min_hours =
     (let reseeded = LAST_ALERT(user_id \<mapsto> isoformat L (utc_now now))
      in case LAST_ALERT user_id of
           None \<Rightarrow> (True, reseeded)
         | Some last_str \<Rightarrow>
             if last_str = [] then (True, reseeded)
             else (case fromisoformat L (replace_Z last_str) of
                     None \<Rightarrow> (True, reseeded)
                   | Some last_dt \<Rightarrow>
                       if now - instant (to_utc last_dt) > hours min_hours
                       then (True, reseeded)
                       else (False, LAST_ALERT)))"

definition default_min_hours :: int where
  "default_min_hours = 6"

text \<open>The stored timestamp is malformed when it is empty or does not parse.\<close>

definition malformed :: "pylib \<Rightarrow> string \<Rightarrow> bool" where
  "malformed L last_str = (last_str = [] \<or> fromisoformat L (replace_Z last_str) = None)"

definition minutes :: "int \<Rightarrow> int" where
  "minutes m = m * 60000000"

subsection \<open>\<^verbatim>\<open>classify_alert_level\<close>\<close>

text \<open>
  \<^verbatim>\<open>
  def classify_alert_level(event_timestamp: str) -> Tuple[str, str]:
      try:
          if isinstance(event_timestamp, str):
              if event_timestamp.endswith('Z'):
                  event_timestamp = event_timestamp.replace('Z', '+00:00')
              event_dt = datetime.fromisoformat(event_timestamp)
              if event_dt.tzinfo is None:
                  event_dt = event_dt.replace(tzinfo=timezone.utc)
          else:
              return ("Emergency", "Unknown time")
          now = datetime.now(timezone.utc)
          time_diff = event_dt - now
          hours_until = time_diff.total_seconds() / 3600.0
          if hours_until > 72:
              days = int(hours_until / 24)
              return ("Reminder", f"{days} days away")
          elif hours_until > 24:
              days = int(hours_until / 24)
              return ("Warning", f"{days} days away")
          else:
              if hours_until < 0:
                  return ("Emergency", "Past event")
              else:
                  hours = int(hours_until)
                  return ("Emergency", f"Within {hours}h")
      except (ValueError, TypeError, AttributeError):
          return ("Emergency", "Unknown time")
  \<close>
  The caller passes \<^verbatim>\<open>event.get("timestamp")\<close>, which may be any value. The time
  difference is a \<^verbatim>\<open>timedelta\<close>, a whole number of microseconds. Python's floats are
  IEEE doubles: \<^verbatim>\<open>total_seconds()\<close> is the quotient of the microseconds by \<open>10\<^sup>6\<close>
  rounded to the nearest double, and each \<^verbatim>\<open>/\<close> is a division rounded to the nearest
  double. A double is modelled by the real number it stands for; \<open>round_double\<close> rounds
  a real number to 53 significant bits, to nearest and ties to even. The limits of the
  exponent are not modelled: the differences of two datetimes stay far inside them.
  \<^verbatim>\<open>int(x)\<close> truncates toward zero; \<^verbatim>\<open>str\<close> of an integer is its decimal numeral.
\<close>

definition round_half_even :: "real \<Rightarrow> int" where
  "round_half_even y =
     (let f = \<lfloor>y\<rfloor>; r = y - of_int f
      in if r < 1 / 2 then f else if 1 / 2 < r then f + 1
         else if even f then f else f + 1)"

definition round_double :: "real \<Rightarrow> real" where
  "round_double x =
     (if x = 0 then 0
      else let u = 2 powr (of_int (\<lfloor>log 2 \<bar>x\<bar>\<rfloor> - 52))
           in of_int (round_half_even (x / u)) * u)"

definition float_div :: "real \<Rightarrow> real \<Rightarrow> real" where
  "float_div a b = round_double (a / b)"

definition total_seconds :: "int \<Rightarrow> real" where
  "total_seconds d = round_double (real_of_int d / 10 ^ 6)"

text \<open>
  \<^verbatim>\<open>time_diff.total_seconds() / 3600.0\<close> and \<^verbatim>\<open>hours_until / 24\<close>, for a time
  difference of \<open>d\<close> microseconds.
\<close>

definition hours_of_delta :: "int \<Rightarrow> real" where
  "hours_of_delta d = float_div (total_seconds d) 3600"

definition days_of_delta :: "int \<Rightarrow> real" where
  "days_of_delta d = float_div (hours_of_delta d) 24"

text \<open>The relative error of one rounding is at most \<open>2\<^sup>-\<^sup>5\<^sup>3\<close>.\<close>

definition rel_lo :: real where
  "rel_lo = 1 - 1 / 2 ^ 53"

definition rel_hi :: real where
  "rel_hi = 1 + 1 / 2 ^ 53"

fun str_of_nat :: "nat \<Rightarrow> string" where
  "str_of_nat n =
     (if n < 10 then [char_of (48 + n)]
      else str_of_nat (n div 10) @ [char_of (48 + n mod 10)])"

declare str_of_nat.simps [simp del]

definition str_of_int :: "int \<Rightarrow> string" where
  "str_of_int i = (if i < 0 then CHR ''-'' # str_of_nat (nat (- i)) else str_of_nat (nat i))"

definition py_trunc :: "real \<Rightarrow> int" where
  "py_trunc x = (if x < 0 then \<lceil>x\<rceil> else \<lfloor>x\<rfloor>)"

definition hours_until_of :: "int \<Rightarrow> datetime \<Rightarrow> real" where
  "hours_until_of now event_dt = hours_of_delta (instant (to_utc event_dt) - now)"

definition classify_alert_level :: "pylib \<Rightarrow> int \<Rightarrow> pyval \<Rightarrow> string \<times> string" where
  "classify_alert_level L now event_timestamp =
     (case event_timestamp of
        PStr s \<Rightarrow>
          (case fromisoformat L (if endswith_Z s then replace_Z s else s) of
             None \<Rightarrow> (''Emergency'', ''Unknown time'')
           | Some event_dt \<Rightarrow>
               (let hours_until = hours_until_of now event_dt
                in if hours_until > 72
                   then (''Reminder'',
                         str_of_int (py_trunc (float_div hours_until 24)) @ '' days away'')
                   else if hours_until > 24
                   then (''Warning'',
                         str_of_int (py_trunc (float_div hours_until 24)) @ '' days away'')
                   else if hours_until < 0 then (''Emergency'', ''Past event'')
                   else (''Emergency'', ''Within '' @ str_of_int (py_trunc hours_until) @ ''h'')))
      | _ \<Rightarrow> (''Emergency'', ''Unknown time''))"

subsection \<open>The specification's words about one record\<close>





definition ts_text_unparseable :: "pylib \<Rightarrow> pyval \<Rightarrow> bool" where
  "ts_text_unparseable L v =
     (case v of PStr s \<Rightarrow> fromisoformat L (replace_Z s) = None | _ \<Rightarrow> \<not> truthy v)"

definition ts_missing_or_unparseable :: "pylib \<Rightarrow> (string \<times> pyval) list \<Rightarrow> bool" where
  "ts_missing_or_unparseable L ev =
     list_all (\<lambda>ts_field. ts_text_unparseable L (dict_get ev ts_field)) ts_fields"

definition type_absent_or_falsy :: "(string \<times> pyval) list \<Rightarrow> bool" where
  "type_absent_or_falsy ev =
     (\<not> truthy (dict_get ev ''eventtype'') \<and> \<not> truthy (dict_get ev ''title'')
      \<and> \<not> truthy (dict_get ev ''eventType''))"

subsection \<open>A fragment of the library, for running examples\<close>

text \<open>
  The examples below run the model on concrete inputs, so they need the library's
  answers there. \<open>cpython\<close> tabulates what CPython 3.11 answers on the inputs the
  examples use; on every other input it answers with a failure or the empty string,
  which no example consults. The instants are 2024-01-01T00:00:00 UTC, a few hours and
  days around it, and the last microsecond of the year 8999.
\<close>

definition iso_table :: "(string \<times> datetime) list" where
  "iso_table =
     [(''2024-01-01T00:00:00+00:00'', \<lparr>wall = 1704067200000000, tzoff = Some 0\<rparr>),
      (''2024-01-01T05:59:00+00:00'', \<lparr>wall = 1704088740000000, tzoff = Some 0\<rparr>),
      (''2024-01-01T06:01:00+00:00'', \<lparr>wall = 1704088860000000, tzoff = Some 0\<rparr>),
      (''2024-01-05T04:00:00+00:00'', \<lparr>wall = 1704427200000000, tzoff = Some 0\<rparr>),
      (''2024-01-03T00:00:00+00:00'', \<lparr>wall = 1704240000000000, tzoff = Some 0\<rparr>),
      (''2024-01-01T05:30:00'', \<lparr>wall = 1704087000000000, tzoff = None\<rparr>),
      (''2023-12-31T00:00:00+00:00'', \<lparr>wall = 1703980800000000, tzoff = Some 0\<rparr>),
      (''8999-12-31T23:59:59.999999+00:00'', \<lparr>wall = 221845391999999999, tzoff = Some 0\<rparr>)]"

definition cpython :: pylib where
  "cpython =
     \<lparr>float_of_str = map_of [(''40.5'', Fin 40.5), (''inf'', PosInf), (''nan'', NaN)],
      fromisoformat = map_of iso_table,
      isoformat = (\<lambda>d. case find (\<lambda>p. snd p = d) iso_table of
                           None \<Rightarrow> [] | Some p \<Rightarrow> fst p),
      fromtimestamp = (\<lambda>x. if x = Fin 1704067200
                            then Inr \<lparr>wall = 1704067200000000, tzoff = Some 0\<rparr>
                            else if x = NaN then Inl ValueError else Inl OverflowError),
      str_of = (\<lambda>v. case v of PInt i \<Rightarrow> str_of_int i | PNone \<Rightarrow> ''None''
                       | PBool b \<Rightarrow> (if b then ''True'' else ''False'') | _ \<Rightarrow> [])\<rparr>"

definition now0 :: int where
  "now0 = 1704067200000000"

text \<open>
  A well-formed upstream record with the identifier \<open>i\<close> and nothing but coordinates,
  and the event it normalizes to at \<open>now0\<close>.
\<close>

definition sample_record :: "string \<Rightarrow> pyval" where
  "sample_record i = PDict [(''latitude'', PInt 1), (''longitude'', PInt 2), (''eventid'', PStr i)]"

definition sample_event :: "string \<Rightarrow> event" where
  "sample_event i =
     \<lparr>ev_id = i, ev_type = ''Disaster'', coordinates = (Fin 1, Fin 2),
      severity = PStr ''unknown'', timestamp = ''2024-01-01T00:00:00+00:00''\<rparr>"

definition empty_cache :: cache where
  "empty_cache = \<lparr>events = [], last_update = None, consecutive_failures = 0\<rparr>"

section \<open>Verified properties\<close>

subsection \<open>The type mapper\<close>

lemma starts_with_iff: "starts_with p s \<longleftrightarrow> (\<exists>post. s = p @ post)"
  by (induction p s rule: starts_with.induct) auto

lemma str_in_iff: "str_in sub s \<longleftrightarrow> (\<exists>pre post. s = pre @ sub @ post)"
proof (induction s)
  case Nil
  then show ?case by auto
next
  case (Cons c cs)
  show ?case
  proof
    assume "str_in sub (c # cs)"
    then consider "starts_with sub (c # cs)" | "str_in sub cs" by auto
    then show "\<exists>pre post. c # cs = pre @ sub @ post"
    proof cases
      case 1
      then obtain post where "c # cs = sub @ post" by (auto simp: starts_with_iff)
      then have "c # cs = [] @ sub @ post" by simp
      then show ?thesis by blast
    next
      case 2
      then obtain pre post where "cs = pre @ sub @ post" using Cons.IH by blast
      then have "c # cs = (c # pre) @ sub @ post" by simp
      then show ?thesis by blast
    qed
  next
    assume "\<exists>pre post. c # cs = pre @ sub @ post"
    then obtain pre post where eq: "c # cs = pre @ sub @ post" by blast
    show "str_in sub (c # cs)"
    proof (cases pre)
      case Nil
      with eq have "starts_with sub (c # cs)" by (auto simp: starts_with_iff)
      then show ?thesis by simp
    next
      case (Cons a pre')
      with eq have "cs = pre' @ sub @ post" by simp
      then have "str_in sub cs" using Cons.IH by blast
      then show ?thesis by simp
    qed
  qed
qed

lemma contains_ci_iff: "contains_ci kw s \<longleftrightarrow> str_in kw (py_lower s)"
proof
  assume "contains_ci kw s"
  then obtain pre mid post where "s = pre @ mid @ post" "py_lower mid = kw"
    by (auto simp: contains_ci_def)
  then have "py_lower s = py_lower pre @ kw @ py_lower post"
    by (simp add: py_lower_def)
  then show "str_in kw (py_lower s)" unfolding str_in_iff by blast
next
  assume "str_in kw (py_lower s)"
  then obtain a b where ab: "map lower_char s = a @ kw @ b"
    unfolding str_in_iff py_lower_def by blast
  define pre where "pre = take (length a) s"
  define mid where "mid = take (length kw) (drop (length a) s)"
  define post where "post = drop (length kw) (drop (length a) s)"
  have s: "s = pre @ mid @ post"
    unfolding pre_def mid_def post_def by (simp only: append_take_drop_id)
  have "map lower_char mid = take (length kw) (drop (length a) (map lower_char s))"
    by (simp add: mid_def take_map drop_map)
  also have "\<dots> = kw" by (simp add: ab)
  finally have m: "map lower_char mid = kw" .
  from s m show "contains_ci kw s" unfolding contains_ci_def py_lower_def by blast
qed

lemma wildfire_has_fire: "str_in ''wildfire'' t \<Longrightarrow> str_in ''fire'' t"
proof -
  assume "str_in ''wildfire'' t"
  then obtain pre post where "t = pre @ ''wildfire'' @ post" unfolding str_in_iff by blast
  then have "t = (pre @ ''wild'') @ ''fire'' @ post" by simp
  then show ?thesis unfolding str_in_iff by blast
qed

text \<open>
  Claim C5. The type mapper is a function of the title alone; it tests the keywords
  case-insensitively as substrings, in the order fire or wildfire, then storm, cyclone,
  hurricane or typhoon, then flood, then volcano, then earthquake; the first group that
  matches decides, and a title that matches none is returned as it was given. A title
  that contains both fire and flood is mapped to Wildfire.
\<close>

theorem map_gdacs_type_table:
  "map_gdacs_type s =
     (if contains_ci ''fire'' s \<or> contains_ci ''wildfire'' s then ''Wildfire''
      else if contains_ci ''storm'' s \<or> contains_ci ''cyclone'' s
              \<or> contains_ci ''hurricane'' s \<or> contains_ci ''typhoon'' s then ''Hurricane''
      else if contains_ci ''flood'' s then ''Flood''
      else if contains_ci ''volcano'' s then ''Volcano''
      else if contains_ci ''earthquake'' s then ''Earthquake''
      else s)
   \<and> (contains_ci ''fire'' s \<and> contains_ci ''flood'' s \<longrightarrow> map_gdacs_type s = ''Wildfire'')"
  by (simp add: map_gdacs_type_def contains_ci_iff Let_def)

lemma ci_fire: "contains_ci ''fire'' ''Flood after FIRE''"
proof -
  have "str_in ''fire'' (py_lower ''Flood after FIRE'')" by code_simp
  then show ?thesis by (simp only: contains_ci_iff)
qed
lemma ci_flood: "contains_ci ''flood'' ''Flood after FIRE''"
proof -
  have "str_in ''flood'' (py_lower ''Flood after FIRE'')" by code_simp
  then show ?thesis by (simp only: contains_ci_iff)
qed

theorem map_gdacs_type_table_witness:
  "contains_ci ''fire'' ''Flood after FIRE'' \<and> contains_ci ''flood'' ''Flood after FIRE''
   \<and> map_gdacs_type ''Flood after FIRE'' = ''Wildfire''"
proof -
  have "map_gdacs_type ''Flood after FIRE'' = ''Wildfire''"
    using map_gdacs_type_table [of "''Flood after FIRE''"] ci_fire ci_flood
    by (simp only: simp_thms if_True)
  then show ?thesis using ci_fire ci_flood by (intro conjI)
qed


subsection \<open>The risk tiers\<close>

lemma base_radius_table:
  "base_radius_of ''Hurricane'' = 100" "base_radius_of ''Flood'' = 50"
  "base_radius_of ''Wildfire'' = 75" "base_radius_of ''Tornado'' = 25"
  "base_radius_of ''Earthquake'' = 60"
  by (simp_all add: base_radius_of_def RISK_RADIUS_def)

lemma base_radius_other:
  "t \<notin> {''Hurricane'', ''Flood'', ''Wildfire'', ''Tornado'', ''Earthquake''} \<Longrightarrow> base_radius_of t = 50"
  by (simp add: base_radius_of_def RISK_RADIUS_def)

lemma base_radius_pos: "0 < base_radius_of t"
  by (simp add: base_radius_of_def RISK_RADIUS_def)

lemma categorize_risk_by_radius:
  assumes "R = real_of_int (base_radius_of t)"
  shows "categorize_risk d t =
     (if d \<le> 0.5 * R then Some ''High'' else if d \<le> R then Some ''Moderate''
      else if d \<le> 1.5 * R then Some ''Low'' else None)"
  using assms by (simp add: categorize_risk_def Let_def)

lemma categorize_risk_mono:
  assumes "d1 \<le> d2"
  shows "tier_rank (categorize_risk d2 t) \<le> tier_rank (categorize_risk d1 t)"
proof -
  define R where "R = real_of_int (base_radius_of t)"
  have Rpos: "0 < R" using base_radius_pos [of t] by (simp add: R_def)
  have c: "\<And>d. categorize_risk d t =
     (if d \<le> 0.5 * R then Some ''High'' else if d \<le> R then Some ''Moderate''
      else if d \<le> 1.5 * R then Some ''Low'' else None)"
    by (rule categorize_risk_by_radius) (simp add: R_def)
  show ?thesis
    using assms Rpos unfolding c tier_rank_def by (simp split: if_splits)
qed

text \<open>
  Claim C4. The base radius \<open>R\<close> is 100, 50, 75, 25, 60 for Hurricane, Flood, Wildfire,
  Tornado, Earthquake and 50 for every other type. For a distance \<open>d \<ge> 0\<close>: up to
  \<open>0.5 R\<close> the tier is High, above that and up to \<open>R\<close> Moderate, above that and up
  to \<open>1.5 R\<close> Low, beyond that there is no tier; the boundary \<open>d = 0.5 R\<close> is High;
  and a larger distance never gives a more severe tier.
\<close>

theorem categorize_risk_tiers:
  "base_radius_of ''Hurricane'' = 100 \<and> base_radius_of ''Flood'' = 50
   \<and> base_radius_of ''Wildfire'' = 75 \<and> base_radius_of ''Tornado'' = 25
   \<and> base_radius_of ''Earthquake'' = 60
   \<and> (t \<notin> {''Hurricane'', ''Flood'', ''Wildfire'', ''Tornado'', ''Earthquake''}
        \<longrightarrow> base_radius_of t = 50)
   \<and> (0 \<le> d \<and> R = real_of_int (base_radius_of t) \<longrightarrow>
        (d \<le> 0.5 * R \<longrightarrow> categorize_risk d t = Some ''High'')
      \<and> (0.5 * R < d \<and> d \<le> R \<longrightarrow> categorize_risk d t = Some ''Moderate'')
      \<and> (R < d \<and> d \<le> 1.5 * R \<longrightarrow> categorize_risk d t = Some ''Low'')
      \<and> (1.5 * R < d \<longrightarrow> categorize_risk d t = None)
      \<and> categorize_risk (0.5 * R) t = Some ''High'')
   \<and> (0 \<le> d1 \<and> d1 \<le> d2 \<longrightarrow>
        tier_rank (categorize_risk d2 t) \<le> tier_rank (categorize_risk d1 t))"
proof -
  have tiers: "0 \<le> d \<and> R = real_of_int (base_radius_of t) \<longrightarrow>
        (d \<le> 0.5 * R \<longrightarrow> categorize_risk d t = Some ''High'')
      \<and> (0.5 * R < d \<and> d \<le> R \<longrightarrow> categorize_risk d t = Some ''Moderate'')
      \<and> (R < d \<and> d \<le> 1.5 * R \<longrightarrow> categorize_risk d t = Some ''Low'')
      \<and> (1.5 * R < d \<longrightarrow> categorize_risk d t = None)
      \<and> categorize_risk (0.5 * R) t = Some ''High''"
  proof (intro impI, elim conjE)
    assume R: "R = real_of_int (base_radius_of t)"
    have Rpos: "0 < R" using base_radius_pos [of t] by (simp add: R)
    show "(d \<le> 0.5 * R \<longrightarrow> categorize_risk d t = Some ''High'')
      \<and> (0.5 * R < d \<and> d \<le> R \<longrightarrow> categorize_risk d t = Some ''Moderate'')
      \<and> (R < d \<and> d \<le> 1.5 * R \<longrightarrow> categorize_risk d t = Some ''Low'')
      \<and> (1.5 * R < d \<longrightarrow> categorize_risk d t = None)
      \<and> categorize_risk (0.5 * R) t = Some ''High''"
      using Rpos unfolding categorize_risk_by_radius [OF R] by simp
  qed
  show ?thesis
    using base_radius_table base_radius_other [of t] tiers categorize_risk_mono [of d1 d2 t]
    by (intro conjI impI) simp_all
qed

theorem categorize_risk_tiers_witness:
  "categorize_risk 25 ''Flood'' = Some ''High''
   \<and> categorize_risk 50 ''Flood'' = Some ''Moderate''
   \<and> categorize_risk 75 ''Flood'' = Some ''Low''
   \<and> categorize_risk 80 ''Flood'' = None
   \<and> base_radius_of ''Volcano'' = 50
   \<and> tier_rank (categorize_risk 80 ''Flood'') \<le> tier_rank (categorize_risk 20 ''Flood'')"
proof -
  have r: "base_radius_of ''Flood'' = 50" by (rule base_radius_table)
  have t: "(25::real) \<le> 0.5 * 50 \<and> (0.5::real) * 50 < 50 \<and> (50::real) < 75
     \<and> (75::real) \<le> 1.5 * 50 \<and> (1.5::real) * 50 < 80 \<and> (0::real) \<le> 20 \<and> (20::real) \<le> 80"
    by simp
  have v: "''Volcano'' \<notin> {''Hurricane'', ''Flood'', ''Wildfire'', ''Tornado'', ''Earthquake''}"
    by simp
  show ?thesis
    using categorize_risk_tiers [of "''Flood''" 25 50 20 80]
      categorize_risk_tiers [of "''Flood''" 50 50 20 80]
      categorize_risk_tiers [of "''Flood''" 75 50 20 80]
      categorize_risk_tiers [of "''Volcano''" 80 50 20 80]
      categorize_risk_tiers [of "''Flood''" 80 50 20 80] r t v
    by simp
qed

subsection \<open>The alert log window\<close>

lemma py_slice_from_neg:
  "0 < k \<Longrightarrow> py_slice_from xs (- k) = drop (length xs - nat k) xs"
  by (simp add: py_slice_from_def Let_def max_def nat_diff_distrib') 

text \<open>
  Claim C10. \<^verbatim>\<open>GET /alerts\<close> answers the empty list for a limit of zero or less,
  treats a limit above 1000 as 1000, and otherwise answers the last \<open>limit\<close> entries of
  the alert log (all of them when the log is shorter), in their stored order; the log
  itself stays as it was. The default limit is 20.
\<close>

theorem get_alerts_window:
  "(limit \<le> 0 \<longrightarrow> fst (get_alerts alog limit) = [])
   \<and> (limit > 1000 \<longrightarrow> get_alerts alog limit = get_alerts alog 1000)
   \<and> (0 < limit \<longrightarrow>
        fst (get_alerts alog limit) = drop (length alog - nat (min limit 1000)) alog
      \<and> length (fst (get_alerts alog limit)) = min (nat (min limit 1000)) (length alog)
      \<and> (\<exists>older. alog = older @ fst (get_alerts alog limit)))
   \<and> snd (get_alerts alog limit) = alog
   \<and> get_alerts alog default_limit = (drop (length alog - 20) alog, alog)"
proof -
  have a: "limit \<le> 0 \<longrightarrow> fst (get_alerts alog limit) = []"
    by (simp add: get_alerts_def)
  have b: "limit > 1000 \<longrightarrow> get_alerts alog limit = get_alerts alog 1000"
    by (simp add: get_alerts_def)
  have c1: "0 < limit \<Longrightarrow>
      fst (get_alerts alog limit) = drop (length alog - nat (min limit 1000)) alog"
    by (simp add: get_alerts_def py_slice_from_neg min_def)
  have c: "0 < limit \<longrightarrow>
        fst (get_alerts alog limit) = drop (length alog - nat (min limit 1000)) alog
      \<and> length (fst (get_alerts alog limit)) = min (nat (min limit 1000)) (length alog)
      \<and> (\<exists>older. alog = older @ fst (get_alerts alog limit))"
  proof
    assume p: "0 < limit"
    have "alog = take (length alog - nat (min limit 1000)) alog @ fst (get_alerts alog limit)"
      unfolding c1 [OF p] by simp
    then have "\<exists>older. alog = older @ fst (get_alerts alog limit)" ..
    moreover have "length (fst (get_alerts alog limit)) = min (nat (min limit 1000)) (length alog)"
      unfolding c1 [OF p] by simp
    ultimately show "fst (get_alerts alog limit) = drop (length alog - nat (min limit 1000)) alog
      \<and> length (fst (get_alerts alog limit)) = min (nat (min limit 1000)) (length alog)
      \<and> (\<exists>older. alog = older @ fst (get_alerts alog limit))"
      using c1 [OF p] by blast
  qed
  have d: "snd (get_alerts alog limit) = alog"
    by (simp add: get_alerts_def Let_def)
  have e: "get_alerts alog default_limit = (drop (length alog - 20) alog, alog)"
    by (simp add: get_alerts_def default_limit_def py_slice_from_neg)
  from a b c d e show ?thesis by (intro conjI)
qed

theorem get_alerts_window_witness:
  "fst (get_alerts [1, 2, 3, 4, 5 :: nat] 0) = []
   \<and> get_alerts [1, 2, 3, 4, 5 :: nat] 5000 = get_alerts [1, 2, 3, 4, 5] 1000
   \<and> fst (get_alerts [1, 2, 3, 4, 5 :: nat] 2) = [4, 5]
   \<and> snd (get_alerts [1, 2, 3, 4, 5 :: nat] 2) = [1, 2, 3, 4, 5]"
  using get_alerts_window [of 0 "[1, 2, 3, 4, 5 :: nat]"]
    get_alerts_window [of 5000 "[1, 2, 3, 4, 5 :: nat]"]
    get_alerts_window [of 2 "[1, 2, 3, 4, 5 :: nat]"]
  by simp

subsection \<open>The alert throttle\<close>

lemma should_send_alert_seed:
  assumes "LAST_ALERT u = None \<or> (\<exists>s. LAST_ALERT u = Some s \<and> malformed L s)"
  shows "should_send_alert L now LAST_ALERT u h =
           (True, LAST_ALERT(u \<mapsto> isoformat L (utc_now now)))"
  using assms by (auto simp: should_send_alert_def malformed_def Let_def)

lemma should_send_alert_parsed:
  assumes "LAST_ALERT u = Some s" "s \<noteq> []" "fromisoformat L (replace_Z s) = Some d"
  shows "should_send_alert L now LAST_ALERT u h =
           (if now - instant (to_utc d) > hours h
            then (True, LAST_ALERT(u \<mapsto> isoformat L (utc_now now)))
            else (False, LAST_ALERT))"
  using assms by (simp add: should_send_alert_def Let_def)

lemma should_send_alert_twice:
  assumes fresh: "LAST_ALERT u = None"
    and nonempty: "isoformat L (utc_now t1) \<noteq> []"
    and rt: "fromisoformat L (replace_Z (isoformat L (utc_now t1))) = Some d"
    and same: "instant (to_utc d) = t1"
  shows "fst (should_send_alert L t1 LAST_ALERT u h) = True
    \<and> fst (should_send_alert L (t1 + gap) (snd (should_send_alert L t1 LAST_ALERT u h)) u h)
        = (gap > hours h)"
proof -
  have first: "should_send_alert L t1 LAST_ALERT u h =
      (True, LAST_ALERT(u \<mapsto> isoformat L (utc_now t1)))"
    using fresh by (simp add: should_send_alert_seed)
  have "should_send_alert L (t1 + gap) (LAST_ALERT(u \<mapsto> isoformat L (utc_now t1))) u h
      = (if t1 + gap - instant (to_utc d) > hours h
         then (True, (LAST_ALERT(u \<mapsto> isoformat L (utc_now t1)))(u \<mapsto> isoformat L (utc_now (t1 + gap))))
         else (False, LAST_ALERT(u \<mapsto> isoformat L (utc_now t1))))"
    by (rule should_send_alert_parsed [OF _ nonempty rt]) simp
  then show ?thesis
    unfolding first by (simp add: same)
qed

text \<open>
  Claim C3. \<^verbatim>\<open>should_send_alert\<close> answers true and records now as the user's
  last-alert time when the user has no stored record or the stored timestamp is
  malformed. Otherwise it answers true exactly when the time since the stored timestamp
  is strictly more than \<open>min_hours\<close>, and it stores now exactly when it answers true,
  leaving the store as it was when it answers false. Hence, with the default of six
  hours and a library that reads back the timestamp it wrote, a first call for a user
  answers true, a second call 5h59m later answers false, and one 6h01m later answers
  true.
\<close>

theorem should_send_alert_throttle:
  "(LAST_ALERT u = None \<or> (\<exists>s. LAST_ALERT u = Some s \<and> malformed L s) \<longrightarrow>
      should_send_alert L now LAST_ALERT u h =
        (True, LAST_ALERT(u \<mapsto> isoformat L (utc_now now))))
   \<and> (LAST_ALERT u = Some s \<and> \<not> malformed L s \<and> fromisoformat L (replace_Z s) = Some d \<longrightarrow>
        fst (should_send_alert L now LAST_ALERT u h) = (now - instant (to_utc d) > hours h)
      \<and> snd (should_send_alert L now LAST_ALERT u h) =
          (if fst (should_send_alert L now LAST_ALERT u h)
           then LAST_ALERT(u \<mapsto> isoformat L (utc_now now)) else LAST_ALERT))
   \<and> (LAST_ALERT u = None \<and> isoformat L (utc_now t1) \<noteq> []
        \<and> fromisoformat L (replace_Z (isoformat L (utc_now t1))) = Some d'
        \<and> instant (to_utc d') = t1 \<longrightarrow>
        fst (should_send_alert L t1 LAST_ALERT u default_min_hours)
      \<and> \<not> fst (should_send_alert L (t1 + (hours 5 + minutes 59))
                 (snd (should_send_alert L t1 LAST_ALERT u default_min_hours)) u default_min_hours)
      \<and> fst (should_send_alert L (t1 + (hours 6 + minutes 1))
                 (snd (should_send_alert L t1 LAST_ALERT u default_min_hours)) u default_min_hours))"
proof (intro conjI impI)
  assume "LAST_ALERT u = None \<or> (\<exists>s. LAST_ALERT u = Some s \<and> malformed L s)"
  then show "should_send_alert L now LAST_ALERT u h =
        (True, LAST_ALERT(u \<mapsto> isoformat L (utc_now now)))"
    by (rule should_send_alert_seed)
next
  assume a: "LAST_ALERT u = Some s \<and> \<not> malformed L s \<and> fromisoformat L (replace_Z s) = Some d"
  then have p: "should_send_alert L now LAST_ALERT u h =
           (if now - instant (to_utc d) > hours h
            then (True, LAST_ALERT(u \<mapsto> isoformat L (utc_now now)))
            else (False, LAST_ALERT))"
    by (intro should_send_alert_parsed) (auto simp: malformed_def)
  show "fst (should_send_alert L now LAST_ALERT u h) = (now - instant (to_utc d) > hours h)"
    by (simp add: p)
  show "snd (should_send_alert L now LAST_ALERT u h) =
          (if fst (should_send_alert L now LAST_ALERT u h)
           then LAST_ALERT(u \<mapsto> isoformat L (utc_now now)) else LAST_ALERT)"
    by (simp add: p)
next
  assume a: "LAST_ALERT u = None \<and> isoformat L (utc_now t1) \<noteq> []
        \<and> fromisoformat L (replace_Z (isoformat L (utc_now t1))) = Some d'
        \<and> instant (to_utc d') = t1"
  then have f: "LAST_ALERT u = None" and n: "isoformat L (utc_now t1) \<noteq> []"
    and b: "fromisoformat L (replace_Z (isoformat L (utc_now t1))) = Some d'"
    and i: "instant (to_utc d') = t1" by simp_all
  note tw = should_send_alert_twice [where LAST_ALERT = LAST_ALERT and u = u and h = default_min_hours,
      OF f n b i]
  show "fst (should_send_alert L t1 LAST_ALERT u default_min_hours)"
    using tw by simp
  show "\<not> fst (should_send_alert L (t1 + (hours 5 + minutes 59))
                 (snd (should_send_alert L t1 LAST_ALERT u default_min_hours)) u default_min_hours)"
    using tw [of "hours 5 + minutes 59"] tw [of "hours 6 + minutes 1"]
    by (simp_all add: hours_def minutes_def default_min_hours_def)
  show "fst (should_send_alert L (t1 + (hours 6 + minutes 1))
                 (snd (should_send_alert L t1 LAST_ALERT u default_min_hours)) u default_min_hours)"
    using tw [of "hours 5 + minutes 59"] tw [of "hours 6 + minutes 1"]
    by (simp_all add: hours_def minutes_def default_min_hours_def)
qed

lemma cpython_iso_now0: "isoformat cpython (utc_now now0) = ''2024-01-01T00:00:00+00:00''"
  by (simp add: cpython_def iso_table_def utc_now_def now0_def)

lemma cpython_parse_now0:
  "fromisoformat cpython (replace_Z ''2024-01-01T00:00:00+00:00'') = Some (utc_now now0)"
  by (simp add: cpython_def iso_table_def utc_now_def now0_def)

theorem should_send_alert_throttle_witness:
  "should_send_alert cpython now0 Map.empty ''u1'' 6
     = (True, [''u1'' \<mapsto> ''2024-01-01T00:00:00+00:00''])
   \<and> fst (should_send_alert cpython (now0 + (hours 5 + minutes 59))
            [''u1'' \<mapsto> ''2024-01-01T00:00:00+00:00''] ''u1'' 6) = False
   \<and> snd (should_send_alert cpython (now0 + (hours 5 + minutes 59))
            [''u1'' \<mapsto> ''2024-01-01T00:00:00+00:00''] ''u1'' 6)
       = [''u1'' \<mapsto> ''2024-01-01T00:00:00+00:00'']
   \<and> fst (should_send_alert cpython now0 Map.empty ''u1'' default_min_hours)
   \<and> \<not> fst (should_send_alert cpython (now0 + (hours 5 + minutes 59))
              (snd (should_send_alert cpython now0 Map.empty ''u1'' default_min_hours))
              ''u1'' default_min_hours)
   \<and> fst (should_send_alert cpython (now0 + (hours 6 + minutes 1))
              (snd (should_send_alert cpython now0 Map.empty ''u1'' default_min_hours))
              ''u1'' default_min_hours)"
proof -
  have e: "(Map.empty :: string \<rightharpoonup> string) ''u1'' = None" by simp
  have s: "[''u1'' \<mapsto> ''2024-01-01T00:00:00+00:00''] ''u1'' = Some ''2024-01-01T00:00:00+00:00''"
    by simp
  have m: "\<not> malformed cpython ''2024-01-01T00:00:00+00:00''"
    using cpython_parse_now0 by (simp add: malformed_def)
  have n: "isoformat cpython (utc_now now0) \<noteq> []" by (simp add: cpython_iso_now0)
  have b: "fromisoformat cpython (replace_Z (isoformat cpython (utc_now now0))) = Some (utc_now now0)"
    by (simp only: cpython_iso_now0 cpython_parse_now0)
  have i: "instant (to_utc (utc_now now0)) = now0"
    by (simp add: instant_def to_utc_def utc_now_def)
  have g: "\<not> (now0 + (hours 5 + minutes 59) - instant (to_utc (utc_now now0)) > hours 6)"
    by (simp add: i hours_def minutes_def)
  note t1 = should_send_alert_throttle [of Map.empty "''u1''" cpython now0 6 "[]" "utc_now now0" now0 "utc_now now0"]
  note t2 = should_send_alert_throttle
    [of "[''u1'' \<mapsto> ''2024-01-01T00:00:00+00:00'']" "''u1''" cpython "now0 + (hours 5 + minutes 59)" 6
        "''2024-01-01T00:00:00+00:00''" "utc_now now0" now0 "utc_now now0"]
  from t1 e have p1: "should_send_alert cpython now0 Map.empty ''u1'' 6
     = (True, [''u1'' \<mapsto> ''2024-01-01T00:00:00+00:00''])"
    by (simp add: cpython_iso_now0)
  from t2 s m cpython_parse_now0 g
  have p2: "fst (should_send_alert cpython (now0 + (hours 5 + minutes 59))
            [''u1'' \<mapsto> ''2024-01-01T00:00:00+00:00''] ''u1'' 6) = False"
    and p3: "snd (should_send_alert cpython (now0 + (hours 5 + minutes 59))
            [''u1'' \<mapsto> ''2024-01-01T00:00:00+00:00''] ''u1'' 6)
       = [''u1'' \<mapsto> ''2024-01-01T00:00:00+00:00'']"
    by simp_all
  from t1 e n b i
  have p4: "fst (should_send_alert cpython now0 Map.empty ''u1'' default_min_hours)
   \<and> \<not> fst (should_send_alert cpython (now0 + (hours 5 + minutes 59))
              (snd (should_send_alert cpython now0 Map.empty ''u1'' default_min_hours))
              ''u1'' default_min_hours)
   \<and> fst (should_send_alert cpython (now0 + (hours 6 + minutes 1))
              (snd (should_send_alert cpython now0 Map.empty ''u1'' default_min_hours))
              ''u1'' default_min_hours)"
    by blast
  from p1 p2 p3 p4 show ?thesis by (intro conjI) simp_all
qed

subsection \<open>Rounding to a double\<close>

lemma round_half_even_error: "\<bar>of_int (round_half_even y) - y\<bar> \<le> 1 / 2"
proof -
  have "of_int \<lfloor>y\<rfloor> \<le> y" "y < of_int \<lfloor>y\<rfloor> + 1" by linarith+
  then show ?thesis by (auto simp: round_half_even_def Let_def)
qed

lemma round_half_even_int: "round_half_even (of_int k) = k"
  by (simp add: round_half_even_def)

lemma round_double_error:
  "\<bar>round_double x - x\<bar> \<le> \<bar>x\<bar> / 2 ^ 53"
proof (cases "x = 0")
  case True
  then show ?thesis by (simp add: round_double_def)
next
  case False
  define e where "e = \<lfloor>log 2 \<bar>x\<bar>\<rfloor>"
  define u where "u = (2::real) powr (of_int (e - 52))"
  have upos: "0 < u" by (simp add: u_def)
  have "of_int e \<le> log 2 \<bar>x\<bar>" by (simp add: e_def)
  then have "2 powr (of_int e) \<le> \<bar>x\<bar>"
    using False by (simp add: le_log_iff)
  moreover have "u = 2 powr (of_int e) / 2 ^ 52"
    by (simp add: u_def powr_diff)
  ultimately have ule: "u \<le> \<bar>x\<bar> / 2 ^ 52"
    by (simp add: divide_right_mono)
  have r: "round_double x = of_int (round_half_even (x / u)) * u"
    using False by (simp add: round_double_def u_def e_def Let_def)
  have "\<bar>round_double x - x\<bar> = \<bar>of_int (round_half_even (x / u)) - x / u\<bar> * u"
  proof -
    have "round_double x - x = (of_int (round_half_even (x / u)) - x / u) * u"
      using upos by (simp add: r algebra_simps)
    then show ?thesis using upos by (simp add: abs_mult)
  qed
  also have "\<dots> \<le> (1 / 2) * u"
    using round_half_even_error [of "x / u"] upos by (intro mult_right_mono) simp_all
  also have "\<dots> \<le> (1 / 2) * (\<bar>x\<bar> / 2 ^ 52)"
    using ule by simp
  also have "\<dots> = \<bar>x\<bar> / 2 ^ 53" by simp
  finally show ?thesis .
qed

lemma round_double_eval:
  assumes "2 ^ n \<le> \<bar>x\<bar>" "\<bar>x\<bar> < 2 ^ Suc n" "n \<le> 52"
  shows "round_double x = of_int (round_half_even (x * 2 ^ (52 - n))) / 2 ^ (52 - n)"
proof -
  have "(0::real) < 2 ^ n" by simp
  with assms(1) have ax: "0 < \<bar>x\<bar>" by linarith
  then have x0: "x \<noteq> 0" by simp
  have p1: "(2::real) powr (real n) = 2 ^ n" by (rule powr_realpow) simp
  have p2: "(2::real) powr (real (Suc n)) = 2 ^ Suc n" by (rule powr_realpow) simp
  have c1: "real_of_int (int n) = real n" by simp
  have c2: "real_of_int (int n + 1) = real (Suc n)" by simp
  have "2 powr (real_of_int (int n)) \<le> \<bar>x\<bar> \<and> \<bar>x\<bar> < 2 powr (real_of_int (int n + 1))"
    unfolding c1 c2 p1 p2 using assms(1,2) by (rule conjI)
  then have fl: "\<lfloor>log 2 \<bar>x\<bar>\<rfloor> = int n"
    using floor_log_eq_powr_iff [of "\<bar>x\<bar>" 2 "int n"] ax by simp
  have c3: "real_of_int (int n - 52) = - real (52 - n)" using assms(3) by simp
  have p3: "(2::real) powr (real (52 - n)) = 2 ^ (52 - n)" by (rule powr_realpow) simp
  have u: "(2::real) powr (real_of_int (int n - 52)) = inverse (2 ^ (52 - n))"
    unfolding c3 powr_minus p3 ..
  have "round_double x
      = of_int (round_half_even (x / inverse (2 ^ (52 - n)))) * inverse (2 ^ (52 - n))"
    using x0 unfolding round_double_def Let_def fl u by (rule if_not_P)
  also have "\<dots> = of_int (round_half_even (x * 2 ^ (52 - n))) / 2 ^ (52 - n)"
    by (simp only: divide_inverse inverse_inverse_eq)
  finally show ?thesis .
qed

lemma round_double_int:
  assumes "\<bar>k\<bar> < 2 ^ 53"
  shows "round_double (of_int k) = of_int k"
proof (cases "k = 0")
  case True
  then show ?thesis by (simp add: round_double_def)
next
  case False
  define x where "x = real_of_int k"
  have x0: "x \<noteq> 0" using False by (simp add: x_def)
  then have ax: "0 < \<bar>x\<bar>" by simp
  have one: "1 \<le> \<bar>x\<bar>"
  proof -
    have "1 \<le> \<bar>k\<bar>" using False by linarith
    then have "real_of_int 1 \<le> real_of_int \<bar>k\<bar>" by (rule of_int_le_iff [THEN iffD2])
    then show ?thesis by (simp add: x_def)
  qed
  have x53: "\<bar>x\<bar> < 2 ^ 53"
  proof -
    have "real_of_int \<bar>k\<bar> < real_of_int (2 ^ 53)"
      using assms by (rule of_int_less_iff [THEN iffD2])
    then show ?thesis by (simp add: x_def)
  qed
  define e where "e = \<lfloor>log 2 \<bar>x\<bar>\<rfloor>"
  define n where "n = nat e"
  have "0 \<le> log 2 \<bar>x\<bar>" using one by simp
  then have e0: "0 \<le> e" by (simp add: e_def)
  have en: "real_of_int e = real n" using e0 by (simp add: n_def)
  have en1: "real_of_int (e + 1) = real (Suc n)" using e0 by (simp add: n_def)
  have b: "2 powr (of_int e) \<le> \<bar>x\<bar> \<and> \<bar>x\<bar> < 2 powr (of_int (e + 1))"
    using floor_log_eq_powr_iff [of "\<bar>x\<bar>" 2 e] ax by (simp add: e_def)
  have p1: "(2::real) powr (real n) = 2 ^ n" by (rule powr_realpow) simp
  have p2: "(2::real) powr (real (Suc n)) = 2 ^ Suc n" by (rule powr_realpow) simp
  have lo: "2 ^ n \<le> \<bar>x\<bar>"
    using b unfolding en en1 p1 p2 by (rule conjunct1)
  have hi: "\<bar>x\<bar> < 2 ^ Suc n"
    using b unfolding en en1 p1 p2 by (rule conjunct2)
  have n52: "n \<le> 52"
  proof (rule ccontr)
    assume "\<not> n \<le> 52"
    then have "53 \<le> n" by simp
    then have "(2::real) ^ 53 \<le> 2 ^ n" by (intro power_increasing) simp_all
    with lo x53 show False by linarith
  qed
  have "round_double x = of_int (round_half_even (x * 2 ^ (52 - n))) / 2 ^ (52 - n)"
    using lo hi n52 by (rule round_double_eval)
  also have "x * (2::real) ^ (52 - n) = of_int (k * 2 ^ (52 - n))" by (simp add: x_def)
  also have "of_int (round_half_even (of_int (k * 2 ^ (52 - n)))) / (2::real) ^ (52 - n) = x"
    by (simp only: round_half_even_int) (simp add: x_def)
  finally show ?thesis by (simp only: x_def)
qed

lemma rel_lo_pos: "0 < rel_lo" and rel_hi_pos: "0 < rel_hi"
  by (simp_all add: rel_lo_def rel_hi_def)

lemma round_double_zero: "round_double 0 = 0"
  by (simp add: round_double_def)

lemma round_double_bounds:
  assumes "0 \<le> x"
  shows "x * rel_lo \<le> round_double x" and "round_double x \<le> x * rel_hi"
proof -
  have "\<bar>round_double x - x\<bar> \<le> x / 2 ^ 53"
    using round_double_error [of x] assms by simp
  then have "x - x / 2 ^ 53 \<le> round_double x" "round_double x \<le> x + x / 2 ^ 53"
    by linarith+
  then show "x * rel_lo \<le> round_double x" and "round_double x \<le> x * rel_hi"
    by (simp_all add: rel_lo_def rel_hi_def algebra_simps)
qed

lemma round_double_lower:
  assumes "0 \<le> c" "c \<le> x"
  shows "c * rel_lo \<le> round_double x"
proof -
  have "c * rel_lo \<le> x * rel_lo"
    using assms(2) rel_lo_pos by (intro mult_right_mono) simp_all
  also have "\<dots> \<le> round_double x"
    using assms by (intro round_double_bounds) simp
  finally show ?thesis .
qed

lemma round_double_upper:
  assumes "0 \<le> x" "x \<le> c"
  shows "round_double x \<le> c * rel_hi"
proof -
  have "round_double x \<le> x * rel_hi" using assms(1) by (rule round_double_bounds)
  also have "\<dots> \<le> c * rel_hi"
    using assms(2) rel_hi_pos by (intro mult_right_mono) simp_all
  finally show ?thesis .
qed

lemma round_double_nonneg: "0 \<le> x \<Longrightarrow> 0 \<le> round_double x"
  using round_double_lower [of 0 x] by simp

lemma round_double_neg:
  assumes "x < 0"
  shows "round_double x < 0"
proof -
  have "\<bar>round_double x - x\<bar> \<le> - x / 2 ^ 53"
    using round_double_error [of x] assms by simp
  then have "round_double x \<le> x - x / 2 ^ 53" by linarith
  also have "\<dots> = x * rel_lo" by (simp add: rel_lo_def algebra_simps)
  also have "\<dots> < 0" using assms rel_lo_pos by (simp add: mult_neg_pos)
  finally show ?thesis .
qed

text \<open>Bounds on the hours and the days computed from a difference of \<open>d\<close> microseconds.\<close>

lemma hours_lower:
  assumes "0 \<le> c" "c \<le> real_of_int d / 10 ^ 6"
  shows "c * rel_lo / 3600 * rel_lo \<le> hours_of_delta d"
proof -
  have s: "c * rel_lo \<le> total_seconds d"
    unfolding total_seconds_def using assms by (rule round_double_lower)
  have "0 \<le> c * rel_lo / 3600" using assms(1) rel_lo_pos by simp
  moreover have "c * rel_lo / 3600 \<le> total_seconds d / 3600"
    using s by (rule divide_right_mono) simp
  ultimately show ?thesis
    unfolding hours_of_delta_def float_div_def by (rule round_double_lower)
qed

lemma hours_upper:
  assumes "0 \<le> d" "real_of_int d / 10 ^ 6 \<le> c"
  shows "hours_of_delta d \<le> c * rel_hi / 3600 * rel_hi"
proof -
  have x0: "0 \<le> real_of_int d / 10 ^ 6" using assms(1) by simp
  have s: "total_seconds d \<le> c * rel_hi"
    unfolding total_seconds_def using x0 assms(2) by (rule round_double_upper)
  have s0: "0 \<le> total_seconds d"
    unfolding total_seconds_def using x0 by (rule round_double_nonneg)
  have "0 \<le> total_seconds d / 3600" using s0 by simp
  moreover have "total_seconds d / 3600 \<le> c * rel_hi / 3600"
    using s by (rule divide_right_mono) simp
  ultimately show ?thesis
    unfolding hours_of_delta_def float_div_def by (rule round_double_upper)
qed

lemma hours_nonneg: "0 \<le> d \<Longrightarrow> 0 \<le> hours_of_delta d"
  using hours_lower [of 0 d] by simp

lemma hours_neg:
  assumes "d < 0"
  shows "hours_of_delta d < 0"
proof -
  have "real_of_int d / 10 ^ 6 < 0" using assms by simp
  then have "total_seconds d < 0"
    unfolding total_seconds_def by (rule round_double_neg)
  then have "total_seconds d / 3600 < 0" by simp
  then show ?thesis
    unfolding hours_of_delta_def float_div_def by (rule round_double_neg)
qed

lemma days_lower:
  assumes "0 \<le> c" "c \<le> real_of_int d / 10 ^ 6"
  shows "c * rel_lo / 3600 * rel_lo / 24 * rel_lo \<le> days_of_delta d"
proof -
  have h: "c * rel_lo / 3600 * rel_lo \<le> hours_of_delta d"
    using assms by (rule hours_lower)
  have "0 \<le> c * rel_lo / 3600 * rel_lo / 24" using assms(1) rel_lo_pos by simp
  moreover have "c * rel_lo / 3600 * rel_lo / 24 \<le> hours_of_delta d / 24"
    using h by (rule divide_right_mono) simp
  ultimately show ?thesis
    unfolding days_of_delta_def float_div_def by (rule round_double_lower)
qed

lemma days_upper:
  assumes "0 \<le> d" "real_of_int d / 10 ^ 6 \<le> c"
  shows "days_of_delta d \<le> c * rel_hi / 3600 * rel_hi / 24 * rel_hi"
proof -
  have h: "hours_of_delta d \<le> c * rel_hi / 3600 * rel_hi"
    using assms by (rule hours_upper)
  have "0 \<le> hours_of_delta d / 24" using hours_nonneg [OF assms(1)] by simp
  moreover have "hours_of_delta d / 24 \<le> c * rel_hi / 3600 * rel_hi / 24"
    using h by (rule divide_right_mono) simp
  ultimately show ?thesis
    unfolding days_of_delta_def float_div_def by (rule round_double_upper)
qed

text \<open>A whole number of seconds, hours or days is computed exactly.\<close>

lemma total_seconds_whole:
  assumes "\<bar>k\<bar> < 2 ^ 53"
  shows "total_seconds (k * 1000000) = of_int k"
  unfolding total_seconds_def using round_double_int [OF assms] by simp

lemma hours_whole:
  assumes "0 \<le> n" "n < 1000000000"
  shows "hours_of_delta (n * 3600000000) = of_int n"
proof -
  have "\<bar>n * 3600\<bar> < 2 ^ 53" using assms by simp
  then have "total_seconds ((n * 3600) * 1000000) = of_int (n * 3600)"
    by (rule total_seconds_whole)
  then have s: "total_seconds (n * 3600000000) = of_int n * 3600" by (simp add: mult.assoc)
  have "\<bar>n\<bar> < 2 ^ 53" using assms by simp
  then have "round_double (of_int n) = of_int n" by (rule round_double_int)
  then show ?thesis by (simp add: hours_of_delta_def float_div_def s)
qed

lemma days_whole:
  assumes "0 \<le> n" "n < 10000000"
  shows "days_of_delta (n * 86400000000) = of_int n"
proof -
  have "hours_of_delta ((n * 24) * 3600000000) = of_int (n * 24)"
    using assms by (intro hours_whole) simp_all
  then have h: "hours_of_delta (n * 86400000000) = of_int n * 24" by (simp add: mult.assoc)
  have "\<bar>n\<bar> < 2 ^ 53" using assms by simp
  then have "round_double (of_int n) = of_int n" by (rule round_double_int)
  then show ?thesis by (simp add: days_of_delta_def float_div_def h)
qed

lemma rel_lo_sq: "1 - 1 / 10 ^ 15 \<le> rel_lo * rel_lo"
  and rel_hi_sq: "rel_hi * rel_hi \<le> 1 + 1 / 10 ^ 15"
  and rel_lo_cube: "1 - 34 / 10 ^ 17 \<le> rel_lo * rel_lo * rel_lo"
  and rel_hi_cube: "rel_hi * rel_hi * rel_hi \<le> 1 + 34 / 10 ^ 17"
  by (simp_all add: rel_lo_def rel_hi_def)

lemma hours_lower_dec:
  assumes "0 \<le> c" "c \<le> real_of_int d / 10 ^ 6"
  shows "c * (1 - 1 / 10 ^ 15) / 3600 \<le> hours_of_delta d"
proof -
  have "c * (1 - 1 / 10 ^ 15) \<le> c * (rel_lo * rel_lo)"
    using assms(1) rel_lo_sq by (rule mult_left_mono [rotated])
  then have "c * (1 - 1 / 10 ^ 15) / 3600 \<le> c * (rel_lo * rel_lo) / 3600"
    by (rule divide_right_mono) simp
  also have "\<dots> = c * rel_lo / 3600 * rel_lo" by simp
  also have "\<dots> \<le> hours_of_delta d" using assms by (rule hours_lower)
  finally show ?thesis .
qed

lemma hours_upper_dec:
  assumes "0 \<le> d" "real_of_int d / 10 ^ 6 \<le> c"
  shows "hours_of_delta d \<le> c * (1 + 1 / 10 ^ 15) / 3600"
proof -
  have "0 \<le> real_of_int d / 10 ^ 6" using assms(1) by simp
  with assms(2) have c0: "0 \<le> c" by linarith
  have "hours_of_delta d \<le> c * rel_hi / 3600 * rel_hi" using assms by (rule hours_upper)
  also have "\<dots> = c * (rel_hi * rel_hi) / 3600" by simp
  also have "\<dots> \<le> c * (1 + 1 / 10 ^ 15) / 3600"
    using c0 rel_hi_sq by (intro divide_right_mono mult_left_mono) simp_all
  finally show ?thesis .
qed

lemma days_lower_dec:
  assumes "0 \<le> c" "c \<le> real_of_int d / 10 ^ 6"
  shows "c * (1 - 34 / 10 ^ 17) / 86400 \<le> days_of_delta d"
proof -
  have "c * (1 - 34 / 10 ^ 17) \<le> c * (rel_lo * rel_lo * rel_lo)"
    using assms(1) rel_lo_cube by (rule mult_left_mono [rotated])
  then have "c * (1 - 34 / 10 ^ 17) / 86400 \<le> c * (rel_lo * rel_lo * rel_lo) / 86400"
    by (rule divide_right_mono) simp
  also have "\<dots> = c * rel_lo / 3600 * rel_lo / 24 * rel_lo" by simp
  also have "\<dots> \<le> days_of_delta d" using assms by (rule days_lower)
  finally show ?thesis .
qed

lemma days_upper_dec:
  assumes "0 \<le> d" "real_of_int d / 10 ^ 6 \<le> c"
  shows "days_of_delta d \<le> c * (1 + 34 / 10 ^ 17) / 86400"
proof -
  have "0 \<le> real_of_int d / 10 ^ 6" using assms(1) by simp
  with assms(2) have c0: "0 \<le> c" by linarith
  have "days_of_delta d \<le> c * rel_hi / 3600 * rel_hi / 24 * rel_hi"
    using assms by (rule days_upper)
  also have "\<dots> = c * (rel_hi * rel_hi * rel_hi) / 86400" by simp
  also have "\<dots> \<le> c * (1 + 34 / 10 ^ 17) / 86400"
    using c0 rel_hi_cube by (intro divide_right_mono mult_left_mono) simp_all
  finally show ?thesis .
qed

lemma hours_gt:
  assumes "0 \<le> T" "T \<le> 72" "T * 3600000000 < d"
  shows "real_of_int T < hours_of_delta d"
proof -
  define t where "t = real_of_int T"
  have t: "0 \<le> t" "t \<le> 72" using assms(1,2) by (simp_all add: t_def)
  have "T * 3600000000 + 1 \<le> d" using assms(3) by simp
  then have "real_of_int (T * 3600000000 + 1) \<le> real_of_int d" by (rule of_int_le_iff [THEN iffD2])
  then have dd: "t * 3600000000 + 1 \<le> real_of_int d" by (simp add: t_def)
  define c where "c = (t * 3600000000 + 1) / 10 ^ 6"
  have c0: "0 \<le> c" using t by (simp add: c_def)
  have cd: "c \<le> real_of_int d / 10 ^ 6"
    unfolding c_def using dd by (rule divide_right_mono) simp
  have "t < c * (1 - 1 / 10 ^ 15) / 3600"
    using t by (simp add: c_def field_simps)
  also have "\<dots> \<le> hours_of_delta d" using c0 cd by (rule hours_lower_dec)
  finally show ?thesis by (simp add: t_def)
qed

lemma hours_le:
  assumes "0 \<le> T" "T \<le> 72" "d \<le> T * 3600000000"
  shows "hours_of_delta d \<le> real_of_int T"
proof -
  define t where "t = real_of_int T"
  have t: "0 \<le> t" "t \<le> 72" using assms(1,2) by (simp_all add: t_def)
  consider "d < 0" | "d = T * 3600000000" | "0 \<le> d" "d \<le> T * 3600000000 - 1"
    using assms(3) by linarith
  then show ?thesis
  proof cases
    case 1
    then have "hours_of_delta d < 0" by (rule hours_neg)
    with t show ?thesis by (simp add: t_def)
  next
    case 2
    have "hours_of_delta (T * 3600000000) = of_int T"
      using assms(1,2) by (intro hours_whole) simp_all
    with 2 show ?thesis by simp
  next
    case 3
    have "real_of_int d \<le> real_of_int (T * 3600000000 - 1)"
      using 3(2) by (rule of_int_le_iff [THEN iffD2])
    then have dd: "real_of_int d \<le> t * 3600000000 - 1" by (simp add: t_def)
    define c where "c = (t * 3600000000 - 1) / 10 ^ 6"
    have cd: "real_of_int d / 10 ^ 6 \<le> c"
      unfolding c_def using dd by (rule divide_right_mono) simp
    have "hours_of_delta d \<le> c * (1 + 1 / 10 ^ 15) / 3600"
      using 3(1) cd by (rule hours_upper_dec)
    also have "\<dots> \<le> t" using t by (simp add: c_def field_simps)
    finally show ?thesis by (simp add: t_def)
  qed
qed

lemma hours_count:
  assumes "0 \<le> d" "d \<le> 24 * 3600000000"
  shows "\<lfloor>hours_of_delta d\<rfloor> = d div 3600000000"
proof -
  define n where "n = d div 3600000000"
  define r where "r = d mod 3600000000"
  have d: "d = n * 3600000000 + r" by (simp add: n_def r_def)
  have r: "0 \<le> r" "r < 3600000000" by (simp_all add: r_def)
  have n: "0 \<le> n" "n \<le> 24" using assms by (simp_all add: n_def pos_imp_zdiv_nonneg_iff)
  define t where "t = real_of_int n"
  have t: "0 \<le> t" "t \<le> 24" using n by (simp_all add: t_def)
  show ?thesis
  proof (cases "r = 0")
    case True
    have "hours_of_delta (n * 3600000000) = of_int n"
      using n by (intro hours_whole) simp_all
    then show ?thesis unfolding n_def [symmetric] using True d by simp
  next
    case False
    then have r1: "1 \<le> r" "r \<le> 3599999999" using r by simp_all
    have "real_of_int (n * 3600000000 + 1) \<le> real_of_int d"
      using r1 d by (intro of_int_le_iff [THEN iffD2]) simp
    then have lo: "t * 3600000000 + 1 \<le> real_of_int d" by (simp add: t_def)
    have "real_of_int d \<le> real_of_int ((n + 1) * 3600000000 - 1)"
      using r1 d by (intro of_int_le_iff [THEN iffD2]) (simp add: algebra_simps)
    then have hi: "real_of_int d \<le> (t + 1) * 3600000000 - 1" by (simp add: t_def)
    define c1 where "c1 = (t * 3600000000 + 1) / 10 ^ 6"
    define c2 where "c2 = ((t + 1) * 3600000000 - 1) / 10 ^ 6"
    have "0 \<le> c1" using t by (simp add: c1_def)
    moreover have "c1 \<le> real_of_int d / 10 ^ 6"
      unfolding c1_def using lo by (rule divide_right_mono) simp
    ultimately have "c1 * (1 - 1 / 10 ^ 15) / 3600 \<le> hours_of_delta d"
      by (rule hours_lower_dec)
    moreover have "t \<le> c1 * (1 - 1 / 10 ^ 15) / 3600"
      using t by (simp add: c1_def field_simps)
    ultimately have a: "of_int n \<le> hours_of_delta d" by (simp add: t_def)
    have "real_of_int d / 10 ^ 6 \<le> c2"
      unfolding c2_def using hi by (rule divide_right_mono) simp
    with assms(1) have "hours_of_delta d \<le> c2 * (1 + 1 / 10 ^ 15) / 3600"
      by (rule hours_upper_dec)
    moreover have "c2 * (1 + 1 / 10 ^ 15) / 3600 < t + 1"
      using t by (simp add: c2_def field_simps)
    ultimately have b: "hours_of_delta d < of_int n + 1" by (simp add: t_def)
    from a b have "\<lfloor>hours_of_delta d\<rfloor> = n" by (rule floor_unique)
    then show ?thesis by (simp add: n_def)
  qed
qed

lemma days_count:
  assumes "0 \<le> d" "d < 30000 * 86400000000"
  shows "\<lfloor>days_of_delta d\<rfloor> = d div 86400000000"
proof -
  define n where "n = d div 86400000000"
  define r where "r = d mod 86400000000"
  have d: "d = n * 86400000000 + r" by (simp add: n_def r_def)
  have r: "0 \<le> r" "r < 86400000000" by (simp_all add: r_def)
  have n: "0 \<le> n" "n \<le> 29999" using assms by (simp_all add: n_def pos_imp_zdiv_nonneg_iff)
  define t where "t = real_of_int n"
  have t: "0 \<le> t" "t \<le> 29999" using n by (simp_all add: t_def)
  show ?thesis
  proof (cases "r = 0")
    case True
    have "days_of_delta (n * 86400000000) = of_int n"
      using n by (intro days_whole) simp_all
    then show ?thesis unfolding n_def [symmetric] using True d by simp
  next
    case False
    then have r1: "1 \<le> r" "r \<le> 86399999999" using r by simp_all
    have "real_of_int (n * 86400000000 + 1) \<le> real_of_int d"
      using r1 d by (intro of_int_le_iff [THEN iffD2]) simp
    then have lo: "t * 86400000000 + 1 \<le> real_of_int d" by (simp add: t_def)
    have "real_of_int d \<le> real_of_int ((n + 1) * 86400000000 - 1)"
      using r1 d by (intro of_int_le_iff [THEN iffD2]) (simp add: algebra_simps)
    then have hi: "real_of_int d \<le> (t + 1) * 86400000000 - 1" by (simp add: t_def)
    define c1 where "c1 = (t * 86400000000 + 1) / 10 ^ 6"
    define c2 where "c2 = ((t + 1) * 86400000000 - 1) / 10 ^ 6"
    have "0 \<le> c1" using t by (simp add: c1_def)
    moreover have "c1 \<le> real_of_int d / 10 ^ 6"
      unfolding c1_def using lo by (rule divide_right_mono) simp
    ultimately have "c1 * (1 - 34 / 10 ^ 17) / 86400 \<le> days_of_delta d"
      by (rule days_lower_dec)
    moreover have "t \<le> c1 * (1 - 34 / 10 ^ 17) / 86400"
      using t by (simp add: c1_def field_simps)
    ultimately have a: "of_int n \<le> days_of_delta d" by (simp add: t_def)
    have "real_of_int d / 10 ^ 6 \<le> c2"
      unfolding c2_def using hi by (rule divide_right_mono) simp
    with assms(1) have "days_of_delta d \<le> c2 * (1 + 34 / 10 ^ 17) / 86400"
      by (rule days_upper_dec)
    moreover have "c2 * (1 + 34 / 10 ^ 17) / 86400 < t + 1"
      using t by (simp add: c2_def field_simps)
    ultimately have b: "days_of_delta d < of_int n + 1" by (simp add: t_def)
    from a b have "\<lfloor>days_of_delta d\<rfloor> = n" by (rule floor_unique)
    then show ?thesis by (simp add: n_def)
  qed
qed

subsection \<open>The urgency classifier\<close>

text \<open>The classifier on a timestamp that parses, in terms of the computed hours.\<close>

lemma py_trunc_nonneg: "0 \<le> x \<Longrightarrow> py_trunc x = \<lfloor>x\<rfloor>"
  by (simp add: py_trunc_def)

lemma classify_parsed:
  assumes "fromisoformat L (if endswith_Z s then replace_Z s else s) = Some dt"
    and "d = instant (to_utc dt) - now"
  shows "classify_alert_level L now (PStr s) =
     (if hours_of_delta d > 72
      then (''Reminder'', str_of_int (py_trunc (days_of_delta d)) @ '' days away'')
      else if hours_of_delta d > 24
      then (''Warning'', str_of_int (py_trunc (days_of_delta d)) @ '' days away'')
      else if hours_of_delta d < 0 then (''Emergency'', ''Past event'')
      else (''Emergency'', ''Within '' @ str_of_int (py_trunc (hours_of_delta d)) @ ''h''))"
  using assms
  by (simp add: classify_alert_level_def hours_until_of_def days_of_delta_def Let_def)

lemma classify_unparseable:
  assumes "fromisoformat L (if endswith_Z s then replace_Z s else s) = None"
  shows "classify_alert_level L now (PStr s) = (''Emergency'', ''Unknown time'')"
  using assms by (simp add: classify_alert_level_def)

lemma classify_not_str:
  assumes "\<forall>s. v \<noteq> PStr s"
  shows "classify_alert_level L now v = (''Emergency'', ''Unknown time'')"
  using assms by (cases v) (simp_all add: classify_alert_level_def)

lemma hours_thresholds:
  "hours_of_delta d > 72 \<longleftrightarrow> hours 72 < d"
  "hours_of_delta d > 24 \<longleftrightarrow> hours 24 < d"
  "hours_of_delta d < 0 \<longleftrightarrow> d < 0"
proof -
  have gt: "\<And>T. 0 \<le> T \<Longrightarrow> T \<le> 72 \<Longrightarrow> (hours_of_delta d > real_of_int T \<longleftrightarrow> hours T < d)"
  proof -
    fix T :: int
    assume T: "0 \<le> T" "T \<le> 72"
    show "hours_of_delta d > real_of_int T \<longleftrightarrow> hours T < d"
    proof (cases "hours T < d")
      case True
      then have "T * 3600000000 < d" by (simp add: hours_def)
      with T have "real_of_int T < hours_of_delta d" by (rule hours_gt)
      with True show ?thesis by simp
    next
      case False
      then have "d \<le> T * 3600000000" by (simp add: hours_def)
      with T have "hours_of_delta d \<le> real_of_int T" by (rule hours_le)
      with False show ?thesis by simp
    qed
  qed
  show "hours_of_delta d > 72 \<longleftrightarrow> hours 72 < d" using gt [of 72] by simp
  show "hours_of_delta d > 24 \<longleftrightarrow> hours 24 < d" using gt [of 24] by simp
  show "hours_of_delta d < 0 \<longleftrightarrow> d < 0"
  proof (cases "d < 0")
    case True
    then show ?thesis using hours_neg [of d] by simp
  next
    case False
    then have "0 \<le> hours_of_delta d" by (intro hours_nonneg) simp
    with False show ?thesis by simp
  qed
qed

lemma days_trunc:
  assumes "0 \<le> d" "d < 30000 * hours 24"
  shows "py_trunc (days_of_delta d) = d div hours 24"
proof -
  have b: "d < 30000 * 86400000000" using assms(2) by (simp add: hours_def)
  have f: "\<lfloor>days_of_delta d\<rfloor> = d div 86400000000"
    using assms(1) b by (rule days_count)
  have "0 \<le> d div 86400000000" using assms(1) by (simp add: pos_imp_zdiv_nonneg_iff)
  then have "0 \<le> \<lfloor>days_of_delta d\<rfloor>" by (simp only: f)
  then have "0 \<le> days_of_delta d" by simp
  then show ?thesis by (simp add: py_trunc_nonneg f hours_def)
qed

lemma hours_trunc:
  assumes "0 \<le> d" "d \<le> hours 24"
  shows "py_trunc (hours_of_delta d) = d div hours 1"
proof -
  have b: "d \<le> 24 * 3600000000" using assms(2) by (simp add: hours_def)
  have "\<lfloor>hours_of_delta d\<rfloor> = d div 3600000000"
    using assms(1) b by (rule hours_count)
  then show ?thesis
    using hours_nonneg [OF assms(1)] by (simp add: py_trunc_nonneg hours_def)
qed

text \<open>
  Claim C8, as amended. With \<open>d\<close> the time from now until the event: more than 72
  hours gives Reminder and a number of days away; more than 24 and at most 72 hours
  gives Warning and the whole days away; from 0 to 24 hours gives Emergency and
  ``Within'' the whole hours; a past timestamp gives Emergency, Past event; a string that
  does not parse, or a value that is not a string, gives Emergency, Unknown time. The
  tiers are decided exactly as the time until the event decides them. The counts are the
  truncation toward zero of the hours and days computed in doubles; the hour count, and
  the day count of an event less than 30000 days away, are the whole hours and days of
  the exact time until the event.
\<close>

theorem classify_alert_level_cases:
  "(fromisoformat L (if endswith_Z s then replace_Z s else s) = Some dt
      \<and> d = instant (to_utc dt) - now \<longrightarrow>
        (hours 72 < d \<longrightarrow> classify_alert_level L now (PStr s)
            = (''Reminder'', str_of_int (py_trunc (days_of_delta d)) @ '' days away''))
      \<and> (hours 72 < d \<and> d < 30000 * hours 24 \<longrightarrow> classify_alert_level L now (PStr s)
            = (''Reminder'', str_of_int (d div hours 24) @ '' days away''))
      \<and> (hours 24 < d \<and> d \<le> hours 72 \<longrightarrow> classify_alert_level L now (PStr s)
            = (''Warning'', str_of_int (d div hours 24) @ '' days away''))
      \<and> (0 \<le> d \<and> d \<le> hours 24 \<longrightarrow> classify_alert_level L now (PStr s)
            = (''Emergency'', ''Within '' @ str_of_int (d div hours 1) @ ''h''))
      \<and> (d < 0 \<longrightarrow> classify_alert_level L now (PStr s) = (''Emergency'', ''Past event'')))
   \<and> (fromisoformat L (if endswith_Z s then replace_Z s else s) = None \<longrightarrow>
        classify_alert_level L now (PStr s) = (''Emergency'', ''Unknown time''))
   \<and> ((\<forall>s'. v \<noteq> PStr s') \<longrightarrow> classify_alert_level L now v = (''Emergency'', ''Unknown time''))
   \<and> py_trunc x = (if x < 0 then - \<lfloor>- x\<rfloor> else \<lfloor>x\<rfloor>)"
proof (intro conjI impI)
  assume "\<forall>s'. v \<noteq> PStr s'"
  then show "classify_alert_level L now v = (''Emergency'', ''Unknown time'')"
    by (rule classify_not_str)
next
  assume "fromisoformat L (if endswith_Z s then replace_Z s else s) = None"
  then show "classify_alert_level L now (PStr s) = (''Emergency'', ''Unknown time'')"
    by (rule classify_unparseable)
next
  show "py_trunc x = (if x < 0 then - \<lfloor>- x\<rfloor> else \<lfloor>x\<rfloor>)"
    by (simp add: py_trunc_def ceiling_def)
next
  assume a: "fromisoformat L (if endswith_Z s then replace_Z s else s) = Some dt
      \<and> d = instant (to_utc dt) - now"
  then have c: "classify_alert_level L now (PStr s) =
     (if hours 72 < d
      then (''Reminder'', str_of_int (py_trunc (days_of_delta d)) @ '' days away'')
      else if hours 24 < d
      then (''Warning'', str_of_int (py_trunc (days_of_delta d)) @ '' days away'')
      else if d < 0 then (''Emergency'', ''Past event'')
      else (''Emergency'', ''Within '' @ str_of_int (py_trunc (hours_of_delta d)) @ ''h''))"
    using classify_parsed [of L s dt d now] by (simp only: hours_thresholds)
  { assume "hours 72 < d"
    then show "classify_alert_level L now (PStr s)
            = (''Reminder'', str_of_int (py_trunc (days_of_delta d)) @ '' days away'')"
      by (simp add: c) }
  { assume b: "hours 72 < d \<and> d < 30000 * hours 24"
    then have "0 \<le> d" by (simp add: hours_def)
    with b have "py_trunc (days_of_delta d) = d div hours 24" by (simp add: days_trunc)
    with b show "classify_alert_level L now (PStr s)
            = (''Reminder'', str_of_int (d div hours 24) @ '' days away'')"
      by (simp add: c) }
  { assume b: "hours 24 < d \<and> d \<le> hours 72"
    then have "0 \<le> d" "d < 30000 * hours 24" by (simp_all add: hours_def)
    then have "py_trunc (days_of_delta d) = d div hours 24" by (rule days_trunc)
    with b show "classify_alert_level L now (PStr s)
            = (''Warning'', str_of_int (d div hours 24) @ '' days away'')"
      by (simp add: c) }
  { assume b: "0 \<le> d \<and> d \<le> hours 24"
    then have "py_trunc (hours_of_delta d) = d div hours 1" by (simp add: hours_trunc)
    moreover have "\<not> hours 72 < d" "\<not> hours 24 < d" "\<not> d < 0"
      using b by (simp_all add: hours_def)
    ultimately show "classify_alert_level L now (PStr s)
            = (''Emergency'', ''Within '' @ str_of_int (d div hours 1) @ ''h'')"
      by (simp add: c) }
  { assume b: "d < 0"
    then have "\<not> hours 72 < d" "\<not> hours 24 < d" by (simp_all add: hours_def)
    with b show "classify_alert_level L now (PStr s) = (''Emergency'', ''Past event'')"
      by (simp add: c) }
qed

lemma str_of_int_digits: "str_of_int 4 = ''4''" "str_of_int 2 = ''2''" "str_of_int 5 = ''5''"
  by code_simp+

lemma cpython_hours:
  "fromisoformat cpython ''2024-01-05T04:00:00+00:00'' = Some \<lparr>wall = 1704427200000000, tzoff = Some 0\<rparr>"
  "fromisoformat cpython ''2024-01-03T00:00:00+00:00'' = Some \<lparr>wall = 1704240000000000, tzoff = Some 0\<rparr>"
  "fromisoformat cpython ''2024-01-01T05:30:00'' = Some \<lparr>wall = 1704087000000000, tzoff = None\<rparr>"
  "fromisoformat cpython ''2023-12-31T00:00:00+00:00'' = Some \<lparr>wall = 1703980800000000, tzoff = Some 0\<rparr>"
  "fromisoformat cpython ''8999-12-31T23:59:59.999999+00:00''
     = Some \<lparr>wall = 221845391999999999, tzoff = Some 0\<rparr>"
  "fromisoformat cpython ''soon'' = None"
  by (simp_all add: cpython_def iso_table_def)

lemma sample_deltas:
  "instant (to_utc \<lparr>wall = 1704427200000000, tzoff = Some 0\<rparr>) - now0 = 360000000000"
  "instant (to_utc \<lparr>wall = 1704240000000000, tzoff = Some 0\<rparr>) - now0 = 172800000000"
  "instant (to_utc \<lparr>wall = 1704087000000000, tzoff = None\<rparr>) - now0 = 19800000000"
  "instant (to_utc \<lparr>wall = 1703980800000000, tzoff = Some 0\<rparr>) - now0 = - 86400000000"
  "instant (to_utc \<lparr>wall = 221845391999999999, tzoff = Some 0\<rparr>) - now0 = 220141324799999999"
  by (simp_all add: instant_def to_utc_def now0_def)

theorem classify_alert_level_cases_witness:
  "classify_alert_level cpython now0 (PStr ''2024-01-05T04:00:00+00:00'') = (''Reminder'', ''4 days away'')
   \<and> classify_alert_level cpython now0 (PStr ''2024-01-03T00:00:00Z'') = (''Warning'', ''2 days away'')
   \<and> classify_alert_level cpython now0 (PStr ''2024-01-01T05:30:00'') = (''Emergency'', ''Within 5h'')
   \<and> classify_alert_level cpython now0 (PStr ''2023-12-31T00:00:00+00:00'') = (''Emergency'', ''Past event'')
   \<and> classify_alert_level cpython now0 (PStr ''soon'') = (''Emergency'', ''Unknown time'')
   \<and> classify_alert_level cpython now0 PNone = (''Emergency'', ''Unknown time'')"
proof -
  have z: "\<not> endswith_Z ''2024-01-05T04:00:00+00:00''" "endswith_Z ''2024-01-03T00:00:00Z''"
    "\<not> endswith_Z ''2024-01-01T05:30:00''" "\<not> endswith_Z ''2023-12-31T00:00:00+00:00''"
    "\<not> endswith_Z ''soon''"
    "replace_Z ''2024-01-03T00:00:00Z'' = ''2024-01-03T00:00:00+00:00''"
    by (simp_all add: endswith_Z_def)
  have q: "(360000000000::int) div hours 24 = 4" "(172800000000::int) div hours 24 = 2"
    "(19800000000::int) div hours 1 = 5"
    by (simp_all add: hours_def)
  note parsed = classify_alert_level_cases [THEN conjunct1, THEN mp]
  have "classify_alert_level cpython now0 (PStr ''2024-01-05T04:00:00+00:00'')
      = (''Reminder'', str_of_int (360000000000 div hours 24) @ '' days away'')"
    by (rule parsed [THEN conjunct2, THEN conjunct1, THEN mp,
          of cpython _ "\<lparr>wall = 1704427200000000, tzoff = Some 0\<rparr>" _ now0])
       (simp_all add: z cpython_hours sample_deltas hours_def)
  then have a: "classify_alert_level cpython now0 (PStr ''2024-01-05T04:00:00+00:00'')
      = (''Reminder'', ''4 days away'')"
    by (simp only: q str_of_int_digits) simp
  have "classify_alert_level cpython now0 (PStr ''2024-01-03T00:00:00Z'')
      = (''Warning'', str_of_int (172800000000 div hours 24) @ '' days away'')"
    by (rule parsed [THEN conjunct2, THEN conjunct2, THEN conjunct1, THEN mp,
          of cpython _ "\<lparr>wall = 1704240000000000, tzoff = Some 0\<rparr>" _ now0])
       (simp_all add: z cpython_hours sample_deltas hours_def)
  then have b: "classify_alert_level cpython now0 (PStr ''2024-01-03T00:00:00Z'')
      = (''Warning'', ''2 days away'')"
    by (simp only: q str_of_int_digits) simp
  have "classify_alert_level cpython now0 (PStr ''2024-01-01T05:30:00'')
      = (''Emergency'', ''Within '' @ str_of_int (19800000000 div hours 1) @ ''h'')"
    by (rule parsed [THEN conjunct2, THEN conjunct2, THEN conjunct2, THEN conjunct1, THEN mp,
          of cpython _ "\<lparr>wall = 1704087000000000, tzoff = None\<rparr>" _ now0])
       (simp_all add: z cpython_hours sample_deltas hours_def)
  then have c: "classify_alert_level cpython now0 (PStr ''2024-01-01T05:30:00'')
      = (''Emergency'', ''Within 5h'')"
    by (simp only: q str_of_int_digits) simp
  have d: "classify_alert_level cpython now0 (PStr ''2023-12-31T00:00:00+00:00'')
      = (''Emergency'', ''Past event'')"
    by (rule parsed [THEN conjunct2, THEN conjunct2, THEN conjunct2, THEN conjunct2, THEN mp,
          of cpython _ "\<lparr>wall = 1703980800000000, tzoff = Some 0\<rparr>" "- 86400000000" now0])
       (simp_all add: z cpython_hours sample_deltas)
  have e: "classify_alert_level cpython now0 (PStr ''soon'') = (''Emergency'', ''Unknown time'')"
    by (rule classify_alert_level_cases [THEN conjunct2, THEN conjunct1, THEN mp])
       (simp add: z cpython_hours)
  have f: "classify_alert_level cpython now0 PNone = (''Emergency'', ''Unknown time'')"
    by (rule classify_alert_level_cases [THEN conjunct2, THEN conjunct2, THEN conjunct1, THEN mp])
       simp
  from a b c d e f show ?thesis by (intro conjI)
qed

text \<open>
  The claim as written fails far in the future. For an event in the last microsecond of
  the year 8999, seen from 2024-01-01, the time until the event is one microsecond short
  of 2547932 days, so its truncation is 2547931; but the seconds are rounded to a double,
  which is the whole number 220141324800, and the code prints 2547932.
\<close>

lemma far_total_seconds: "total_seconds 220141324799999999 = 220141324800"
proof -
  have "round_double (220141324799999999 / 10 ^ 6)
      = of_int (round_half_even (220141324799999999 / 10 ^ 6 * 2 ^ (52 - 37))) / 2 ^ (52 - 37)"
    by (rule round_double_eval) simp_all
  also have "\<dots> = 220141324800"
    by (simp add: round_half_even_def Let_def)
  finally show ?thesis by (simp add: total_seconds_def)
qed

lemma far_days:
  "hours_of_delta 220141324799999999 = 61150368"
  "days_of_delta 220141324799999999 = 2547932"
proof -
  have i: "round_double (of_int 61150368) = of_int 61150368"
    "round_double (of_int 2547932) = of_int 2547932"
    by (rule round_double_int, simp)+
  show h: "hours_of_delta 220141324799999999 = 61150368"
    using i(1) by (simp add: hours_of_delta_def float_div_def far_total_seconds)
  show "days_of_delta 220141324799999999 = 2547932"
    using i(2) by (simp add: days_of_delta_def float_div_def h)
qed

lemma digit_chars:
  "char_of (48::nat) = CHR ''0''" "char_of (49::nat) = CHR ''1''" "char_of (50::nat) = CHR ''2''"
  "char_of (51::nat) = CHR ''3''" "char_of (52::nat) = CHR ''4''" "char_of (53::nat) = CHR ''5''"
  "char_of (54::nat) = CHR ''6''" "char_of (55::nat) = CHR ''7''" "char_of (56::nat) = CHR ''8''"
  "char_of (57::nat) = CHR ''9''"
  by code_simp+

lemma str_of_int_far: "str_of_int 2547932 = ''2547932''"
  by (simp add: str_of_int_def str_of_nat.simps digit_chars)

theorem far_future_day_count_counterexample:
  "classify_alert_level cpython now0 (PStr ''8999-12-31T23:59:59.999999+00:00'')
     = (''Reminder'', ''2547932 days away'')
   \<and> fromisoformat cpython ''8999-12-31T23:59:59.999999+00:00''
       = Some \<lparr>wall = 221845391999999999, tzoff = Some 0\<rparr>
   \<and> instant (to_utc \<lparr>wall = 221845391999999999, tzoff = Some 0\<rparr>) - now0
       = 2547932 * hours 24 - 1
   \<and> (2547932 * hours 24 - 1) div hours 24 = 2547931"
proof -
  have z: "\<not> endswith_Z ''8999-12-31T23:59:59.999999+00:00''"
    by (simp add: endswith_Z_def)
  have p: "fromisoformat cpython
      (if endswith_Z ''8999-12-31T23:59:59.999999+00:00''
       then replace_Z ''8999-12-31T23:59:59.999999+00:00''
       else ''8999-12-31T23:59:59.999999+00:00'')
     = Some \<lparr>wall = 221845391999999999, tzoff = Some 0\<rparr>"
    by (simp only: z if_False cpython_hours)
  have "classify_alert_level cpython now0 (PStr ''8999-12-31T23:59:59.999999+00:00'')
     = (''Reminder'', str_of_int (py_trunc 2547932) @ '' days away'')"
    using classify_parsed [OF p sample_deltas(5) [symmetric]] by (simp add: far_days)
  then have a: "classify_alert_level cpython now0 (PStr ''8999-12-31T23:59:59.999999+00:00'')
     = (''Reminder'', ''2547932 days away'')"
    by (simp add: py_trunc_def str_of_int_far)
  show ?thesis
    using a by (simp add: cpython_hours sample_deltas hours_def)
qed

subsection \<open>The event normalizer\<close>





lemma normalize_fields_None_iff:
  "normalize_fields L now ev = Inr None \<longleftrightarrow> parse_coords L ev = Inr None"
  by (auto simp: normalize_fields_def split: sum.splits option.splits)

lemma normalize_fields_emit:
  assumes "parse_coords L ev = Inr (Some c)" "mapped_type_of ev = Inr t"
    "event_timestamp_of L now ev = Inr ts"
  shows "normalize_fields L now ev = Inr (Some (make_event L ev t c ts))"
  using assms by (simp add: normalize_fields_def)

lemma parse_ts_value_unparseable:
  "ts_text_unparseable L v \<Longrightarrow> parse_ts_value L v = Next_field"
  by (cases v)
     (auto simp: ts_text_unparseable_def parse_ts_value_def ts_handler_def caught_by_ts_def)

lemma scan_timestamp_unparseable:
  "list_all (\<lambda>f. ts_text_unparseable L (dict_get ev f)) fs \<Longrightarrow> scan_timestamp L ev fs = Inr None"
  by (induction fs) (simp_all add: parse_ts_value_unparseable)

lemma event_timestamp_of_unparseable:
  "ts_missing_or_unparseable L ev \<Longrightarrow> event_timestamp_of L now ev = Inr (isoformat L (utc_now now))"
  by (simp add: ts_missing_or_unparseable_def event_timestamp_of_def scan_timestamp_unparseable)

lemma disaster_type_default:
  "type_absent_or_falsy ev \<Longrightarrow> disaster_type_of ev = PStr ''Disaster''"
  by (simp add: type_absent_or_falsy_def disaster_type_of_def py_or_def)

lemma map_gdacs_type_Disaster: "map_gdacs_type ''Disaster'' = ''Disaster''"
  by code_simp

lemma mapped_type_default:
  "type_absent_or_falsy ev \<Longrightarrow> mapped_type_of ev = Inr ''Disaster''"
  by (simp add: mapped_type_of_def disaster_type_default map_gdacs_type_Disaster)


lemma normalize_record_dict: "normalize_record L now (PDict ev) = normalize_fields L now ev"
  by (simp add: normalize_record_def)






text \<open>
  Claim C9. When none of the aliases \<^verbatim>\<open>eventtype\<close>, \<^verbatim>\<open>title\<close>, \<^verbatim>\<open>eventType\<close> is
  truthy, the normalizer takes the string ``Disaster'', the type mapper returns it
  unchanged, an event the record yields has the type ``Disaster'', and the record is
  skipped only for its coordinates: with coordinates that convert and a timestamp scan
  that ends, it yields an event.
\<close>

theorem missing_type_is_Disaster:
  "map_gdacs_type ''Disaster'' = ''Disaster''
   \<and> (type_absent_or_falsy ev \<longrightarrow>
        disaster_type_of ev = PStr ''Disaster''
      \<and> mapped_type_of ev = Inr ''Disaster''
      \<and> (\<forall>e. normalize_record L now (PDict ev) = Inr (Some e) \<longrightarrow> ev_type e = ''Disaster'')
      \<and> (normalize_record L now (PDict ev) = Inr None \<longleftrightarrow> parse_coords L ev = Inr None)
      \<and> (\<forall>c ts. parse_coords L ev = Inr (Some c) \<and> event_timestamp_of L now ev = Inr ts \<longrightarrow>
            normalize_record L now (PDict ev) = Inr (Some (make_event L ev ''Disaster'' c ts))))"
proof (intro conjI impI allI)
  show "map_gdacs_type ''Disaster'' = ''Disaster''" by (rule map_gdacs_type_Disaster)
next
  assume a: "type_absent_or_falsy ev"
  show "disaster_type_of ev = PStr ''Disaster''" using a by (rule disaster_type_default)
  show m: "mapped_type_of ev = Inr ''Disaster''" using a by (rule mapped_type_default)
  show "normalize_record L now (PDict ev) = Inr None \<longleftrightarrow> parse_coords L ev = Inr None"
    by (simp only: normalize_record_dict normalize_fields_None_iff)
  { fix e assume "normalize_record L now (PDict ev) = Inr (Some e)"
    then show "ev_type e = ''Disaster''"
      using m by (auto simp: normalize_record_dict normalize_fields_def make_event_def
          split: sum.splits option.splits) }
  { fix c ts assume "parse_coords L ev = Inr (Some c) \<and> event_timestamp_of L now ev = Inr ts"
    then show "normalize_record L now (PDict ev) = Inr (Some (make_event L ev ''Disaster'' c ts))"
      using m by (simp add: normalize_record_dict normalize_fields_emit) }
qed

theorem missing_type_is_Disaster_witness:
  "normalize_record cpython now0
      (PDict [(''latitude'', PInt 10), (''longitude'', PInt 20), (''title'', PStr []),
              (''eventtype'', PNone)])
     = Inr (Some \<lparr>ev_id = [], ev_type = ''Disaster'', coordinates = (Fin 10, Fin 20),
                   severity = PStr ''unknown'', timestamp = ''2024-01-01T00:00:00+00:00''\<rparr>)"
proof -
  define ev where "ev = [(''latitude'', PInt 10), (''longitude'', PInt 20), (''title'', PStr []),
              (''eventtype'', PNone)]"
  have a: "type_absent_or_falsy ev"
    by (simp add: ev_def type_absent_or_falsy_def dict_get_def dict_get_default_def)
  have c: "parse_coords cpython ev = Inr (Some (Fin 10, Fin 20))"
    by (simp add: ev_def parse_coords_def probe_lat_def probe_lon_def dict_get_def
        dict_get_default_def int_to_float_def Let_def)
  have u: "ts_missing_or_unparseable cpython ev"
    by (simp add: ev_def ts_missing_or_unparseable_def ts_text_unparseable_def ts_fields_def
        dict_get_def dict_get_default_def)
  have s: "event_timestamp_of cpython now0 ev = Inr ''2024-01-01T00:00:00+00:00''"
    using event_timestamp_of_unparseable [OF u, of now0] by (simp add: cpython_iso_now0)
  have m: "make_event cpython ev ''Disaster'' (Fin 10, Fin 20) ''2024-01-01T00:00:00+00:00''
     = \<lparr>ev_id = [], ev_type = ''Disaster'', coordinates = (Fin 10, Fin 20),
                   severity = PStr ''unknown'', timestamp = ''2024-01-01T00:00:00+00:00''\<rparr>"
    by (simp add: ev_def make_event_def py_or_def py_str_def dict_get_def dict_get_default_def)
  have "normalize_record cpython now0 (PDict ev)
      = Inr (Some (make_event cpython ev ''Disaster'' (Fin 10, Fin 20) ''2024-01-01T00:00:00+00:00''))"
    using missing_type_is_Disaster [of ev cpython now0] a c s by blast
  then show ?thesis unfolding m unfolding ev_def .
qed

text \<open>
  What the handlers of the loop body do not catch leaves the loop and the fetch: a
  latitude given as an integer too large for a double, or a numeric timestamp beyond the
  range of the platform's clock (here \<open>10\<^sup>3\<^sup>0\<close>, read as milliseconds).
\<close>

lemma huge_integer_latitude_raises:
  "normalize_record L now (PDict [(''latitude'', PInt (10 ^ 400)), (''longitude'', PInt 2)])
     = Inl OverflowError"
  by (simp add: normalize_record_def normalize_fields_def parse_coords_def probe_lat_def
      probe_lon_def dict_get_def dict_get_default_def int_to_float_def caught_by_coords_def
      Let_def)

lemma out_of_range_timestamp_raises:
  "fetch_disaster_data cpython now0
      (Body (PList [PDict [(''latitude'', PInt 1), (''longitude'', PInt 2),
                           (''fromdate'', PFloat (Fin (10 ^ 30)))]]))
     = Inl OverflowError"
proof -
  define ev where "ev = [(''latitude'', PInt 1), (''longitude'', PInt 2),
                           (''fromdate'', PFloat (Fin (10 ^ 30)))]"
  have c: "parse_coords cpython ev = Inr (Some (Fin 1, Fin 2))"
    by (simp add: ev_def parse_coords_def probe_lat_def probe_lon_def dict_get_def
        dict_get_default_def int_to_float_def Let_def)
  have t: "mapped_type_of ev = Inr ''Disaster''"
    by (rule mapped_type_default)
       (simp add: ev_def type_absent_or_falsy_def dict_get_def dict_get_default_def)
  have p: "parse_ts_value cpython (PFloat (Fin (10 ^ 30))) = Raise OverflowError"
    by (simp add: parse_ts_value_def timestamp_arg_def float_gt_1e10_def float_div_1000_def
        ts_handler_def caught_by_ts_def cpython_def)
  have s: "event_timestamp_of cpython now0 ev = Inl OverflowError"
    using p
    by (simp add: ev_def event_timestamp_of_def ts_fields_def dict_get_def dict_get_default_def)
  have "normalize_record cpython now0 (PDict ev) = Inl OverflowError"
    by (simp add: normalize_record_dict normalize_fields_def c t s)
  then show ?thesis
    unfolding ev_def
    by (simp add: fetch_disaster_data_def fetch_gdacs_events_def fetch_loop_def py_iter_def
        results_of_def)
qed

subsection \<open>The cache and resync manager\<close>

lemma append_new_filter:
  "append_new ids recent fetched = fetched @ filter (\<lambda>e. ev_id e \<notin> ids) recent"
  by (induction recent arbitrary: fetched) simp_all

lemma fetch_Failed: "fetch_disaster_data L now Failed = Inr []"
  by (simp add: fetch_disaster_data_def fetch_gdacs_events_def fetch_loop_def)

lemma safe_update_events_raise:
  assumes "fetch_disaster_data L now r1 = Inl e"
  shows "safe_update_events L now r1 r2 CACHE =
           (CACHE\<lparr>consecutive_failures := consecutive_failures CACHE + 1\<rparr>, 1)"
  using assms by (simp add: safe_update_events_def failed_tick_def)

lemma safe_update_events_live:
  assumes "fetch_disaster_data L now r1 = Inr fetched" "consecutive_failures CACHE \<le> 1"
  shows "safe_update_events L now r1 r2 CACHE =
           (CACHE\<lparr>events := fetched, last_update := Some (isoformat L (utc_now now)),
                    consecutive_failures := 0\<rparr>, 1)"
  using assms by (simp add: safe_update_events_def)

lemma safe_update_events_recovering:
  assumes "fetch_disaster_data L now r1 = Inr fetched" "consecutive_failures CACHE > 1"
    "fetch_recent_gdacs_events L now (utc_now (now - hours 24)) r2 = Inr recent"
  shows "safe_update_events L now r1 r2 CACHE =
           (CACHE\<lparr>events := fetched @ filter (\<lambda>e. ev_id e \<notin> existing_ids_of (events CACHE)) recent,
                    last_update := Some (isoformat L (utc_now now)),
                    consecutive_failures := 0\<rparr>, 2)"
  using assms by (simp add: safe_update_events_def append_new_filter Let_def)

lemma collect_map:
  assumes "\<And>i. body (g i) = Inr (Some (f i))"
  shows "collect body (map g ids) acc = Inr (acc @ map f ids)"
  using assms by (induction ids arbitrary: acc) simp_all

lemma normalize_sample_record:
  "normalize_record cpython now0 (sample_record i) = Inr (Some (sample_event i))"
proof -
  define ev where "ev = [(''latitude'', PInt 1), (''longitude'', PInt 2), (''eventid'', PStr i)]"
  have c: "parse_coords cpython ev = Inr (Some (Fin 1, Fin 2))"
    by (simp add: ev_def parse_coords_def probe_lat_def probe_lon_def dict_get_def
        dict_get_default_def int_to_float_def Let_def)
  have t: "mapped_type_of ev = Inr ''Disaster''"
    by (rule mapped_type_default)
       (simp add: ev_def type_absent_or_falsy_def dict_get_def dict_get_default_def)
  have u: "ts_missing_or_unparseable cpython ev"
    by (simp add: ev_def ts_missing_or_unparseable_def ts_text_unparseable_def ts_fields_def
        dict_get_def dict_get_default_def)
  have s: "event_timestamp_of cpython now0 ev = Inr ''2024-01-01T00:00:00+00:00''"
    using event_timestamp_of_unparseable [OF u, of now0] by (simp add: cpython_iso_now0)
  have m: "make_event cpython ev ''Disaster'' (Fin 1, Fin 2) ''2024-01-01T00:00:00+00:00''
     = sample_event i"
    by (cases "i = []")
       (simp_all add: ev_def make_event_def py_or_def py_str_def dict_get_def dict_get_default_def
        sample_event_def)
  show ?thesis
    unfolding sample_record_def ev_def [symmetric]
    by (simp add: normalize_record_dict normalize_fields_emit [OF c t s] m)
qed

lemma keep_sample_event:
  "keep_recent cpython (utc_now (now0 - hours 24)) (timestamp (sample_event i))"
  using cpython_parse_now0
  by (simp add: keep_recent_def sample_event_def instant_def to_utc_def utc_now_def hours_def)

lemma normalize_recent_sample_record:
  "normalize_recent_record cpython now0 (utc_now (now0 - hours 24)) (sample_record i)
     = Inr (Some (sample_event i))"
  by (simp add: normalize_recent_record_def normalize_sample_record keep_sample_event)

lemma fetch_sample_records:
  "fetch_disaster_data cpython now0 (Body (PList (map sample_record ids)))
     = Inr (map sample_event ids)"
proof -
  have "collect (normalize_record cpython now0) (map sample_record ids) []
      = Inr ([] @ map sample_event ids)"
    by (rule collect_map) (rule normalize_sample_record)
  then show ?thesis
    by (simp add: fetch_disaster_data_def fetch_gdacs_events_def fetch_loop_def py_iter_def
        results_of_def)
qed

lemma fetch_recent_sample_records:
  "fetch_recent_gdacs_events cpython now0 (utc_now (now0 - hours 24))
      (Body (PList (map sample_record ids)))
     = Inr (map sample_event ids)"
proof -
  have "collect (normalize_recent_record cpython now0 (utc_now (now0 - hours 24)))
          (map sample_record ids) []
      = Inr ([] @ map sample_event ids)"
    by (rule collect_map) (rule normalize_recent_sample_record)
  then show ?thesis
    by (simp add: fetch_recent_gdacs_events_def fetch_loop_def py_iter_def results_of_def)
qed

lemma fetch_not_a_record:
  "fetch_disaster_data L now (Body (PList [PInt 5])) = Inl AttributeError"
  by (simp add: fetch_disaster_data_def fetch_gdacs_events_def fetch_loop_def py_iter_def
      results_of_def normalize_record_def)

text \<open>
  Claim C1 holds where the fetch raises, and on success: the counter goes up by one and
  the events stay, or the events are replaced, the update time set and the counter
  reset. It fails where the request itself fails: \<^verbatim>\<open>fetch_gdacs_events\<close> catches the
  exception and returns the empty list, so the tick takes the success path. From a cache
  that holds an event, one failed request leaves no event and the counter at 0, and
  three in a row leave the counter at 0, 0, 0.
\<close>

theorem failed_request_erases_cache:
  "safe_update_events L now Failed r2 \<lparr>events = [e0], last_update = lu, consecutive_failures = 0\<rparr>
     = (\<lparr>events = [], last_update = Some (isoformat L (utc_now now)), consecutive_failures = 0\<rparr>, 1)
   \<and> map consecutive_failures
        [fst (safe_update_events L t1 Failed r2
               \<lparr>events = [e0], last_update = lu, consecutive_failures = 0\<rparr>),
         fst (safe_update_events L t2 Failed r3
               (fst (safe_update_events L t1 Failed r2
                      \<lparr>events = [e0], last_update = lu, consecutive_failures = 0\<rparr>))),
         fst (safe_update_events L t3 Failed r4
               (fst (safe_update_events L t2 Failed r3
                 (fst (safe_update_events L t1 Failed r2
                        \<lparr>events = [e0], last_update = lu, consecutive_failures = 0\<rparr>)))))]
       = [0, 0, 0]"
proof -
  have one: "\<And>t r c. consecutive_failures c \<le> 1 \<Longrightarrow>
      safe_update_events L t Failed r c
        = (c\<lparr>events := [], last_update := Some (isoformat L (utc_now t)),
              consecutive_failures := 0\<rparr>, 1)"
    by (rule safe_update_events_live) (simp_all add: fetch_Failed)
  show ?thesis by (simp add: one)
qed

text \<open>
  Claim C2 fails where the snapshot holds an event that the cache did not: the resync
  candidates are compared with the identifiers of the cache as it was before the tick,
  not with the snapshot just fetched. Two ticks whose payload holds a number instead of
  a record raise and bring the counter to 2; the next tick fetches the snapshot A, B and
  the resync A, C, makes two requests, and leaves A, B, A, C.
\<close>

theorem resync_duplicates_snapshot_event:
  "consecutive_failures
     (fst (safe_update_events cpython now0 (Body (PList [PInt 5])) Failed
        (fst (safe_update_events cpython now0 (Body (PList [PInt 5])) Failed empty_cache)))) = 2
   \<and> safe_update_events cpython now0
        (Body (PList [sample_record ''A'', sample_record ''B'']))
        (Body (PList [sample_record ''A'', sample_record ''C'']))
        (fst (safe_update_events cpython now0 (Body (PList [PInt 5])) Failed
          (fst (safe_update_events cpython now0 (Body (PList [PInt 5])) Failed empty_cache))))
     = (\<lparr>events = [sample_event ''A'', sample_event ''B'', sample_event ''A'', sample_event ''C''],
         last_update = Some ''2024-01-01T00:00:00+00:00'',
         consecutive_failures = 0\<rparr>, 2)"
proof -
  have down: "fst (safe_update_events cpython now0 (Body (PList [PInt 5])) Failed
        (fst (safe_update_events cpython now0 (Body (PList [PInt 5])) Failed empty_cache)))
     = \<lparr>events = [], last_update = None, consecutive_failures = 2\<rparr>"
    by (simp add: safe_update_events_raise [OF fetch_not_a_record] empty_cache_def)
  have f: "fetch_disaster_data cpython now0 (Body (PList [sample_record ''A'', sample_record ''B'']))
     = Inr [sample_event ''A'', sample_event ''B'']"
    using fetch_sample_records [of "[''A'', ''B'']"] by simp
  have r: "fetch_recent_gdacs_events cpython now0 (utc_now (now0 - hours 24))
      (Body (PList [sample_record ''A'', sample_record ''C'']))
     = Inr [sample_event ''A'', sample_event ''C'']"
    using fetch_recent_sample_records [of "[''A'', ''C'']"] by simp
  show ?thesis
    unfolding down
    by (simp add: safe_update_events_recovering [OF f _ r] existing_ids_of_def cpython_iso_now0)
qed

text \<open>
  Claim C7, as amended. On the recovering tick the merge is keyed on the identifier
  alone, the empty string included: the events after the tick are the snapshot followed
  by the resync candidates whose identifier is not among the existing identifiers the
  merge compares with. A candidate with the empty identifier is appended exactly when
  no existing event has the empty identifier; and then every such candidate is
  appended, since candidates are not compared with one another.
\<close>

theorem resync_merge_keyed_on_id:
  "consecutive_failures CACHE > 1 \<and> fetch_disaster_data L now r1 = Inr fetched
     \<and> fetch_recent_gdacs_events L now (utc_now (now - hours 24)) r2 = Inr recent \<longrightarrow>
     events (fst (safe_update_events L now r1 r2 CACHE))
       = fetched @ filter (\<lambda>e. ev_id e \<notin> existing_ids_of (events CACHE)) recent
   \<and> (\<forall>e. e \<in> set recent \<and> ev_id e = [] \<longrightarrow>
         (e \<in> set (drop (length fetched) (events (fst (safe_update_events L now r1 r2 CACHE))))
            \<longleftrightarrow> [] \<notin> existing_ids_of (events CACHE)))
   \<and> ([] \<notin> existing_ids_of (events CACHE) \<longrightarrow>
         filter (\<lambda>e. ev_id e = [])
           (drop (length fetched) (events (fst (safe_update_events L now r1 r2 CACHE))))
         = filter (\<lambda>e. ev_id e = []) recent)"
proof (intro impI)
  assume a: "consecutive_failures CACHE > 1 \<and> fetch_disaster_data L now r1 = Inr fetched
     \<and> fetch_recent_gdacs_events L now (utc_now (now - hours 24)) r2 = Inr recent"
  then have ev: "events (fst (safe_update_events L now r1 r2 CACHE))
       = fetched @ filter (\<lambda>e. ev_id e \<notin> existing_ids_of (events CACHE)) recent"
    by (simp add: safe_update_events_recovering)
  have keep: "[] \<notin> existing_ids_of (events CACHE) \<Longrightarrow>
      filter (\<lambda>e. ev_id e = []) (filter (\<lambda>e. ev_id e \<notin> existing_ids_of (events CACHE)) recent)
        = filter (\<lambda>e. ev_id e = []) recent"
    by (induction recent) auto
  show "events (fst (safe_update_events L now r1 r2 CACHE))
       = fetched @ filter (\<lambda>e. ev_id e \<notin> existing_ids_of (events CACHE)) recent
   \<and> (\<forall>e. e \<in> set recent \<and> ev_id e = [] \<longrightarrow>
         (e \<in> set (drop (length fetched) (events (fst (safe_update_events L now r1 r2 CACHE))))
            \<longleftrightarrow> [] \<notin> existing_ids_of (events CACHE)))
   \<and> ([] \<notin> existing_ids_of (events CACHE) \<longrightarrow>
         filter (\<lambda>e. ev_id e = [])
           (drop (length fetched) (events (fst (safe_update_events L now r1 r2 CACHE))))
         = filter (\<lambda>e. ev_id e = []) recent)"
    unfolding ev using keep by auto
qed

theorem resync_merge_keyed_on_id_witness:
  "events (fst (safe_update_events cpython now0 (Body (PList []))
      (Body (PList [sample_record [], sample_record ''A'', sample_record []]))
      \<lparr>events = [sample_event ''A''], last_update = None, consecutive_failures = 2\<rparr>))
     = [sample_event [], sample_event []]"
proof -
  define c where "c = \<lparr>events = [sample_event ''A''], last_update = None, consecutive_failures = 2\<rparr>"
  have f: "fetch_disaster_data cpython now0 (Body (PList [])) = Inr []"
    using fetch_sample_records [of "[]"] by simp
  have r: "fetch_recent_gdacs_events cpython now0 (utc_now (now0 - hours 24))
      (Body (PList [sample_record [], sample_record ''A'', sample_record []]))
     = Inr [sample_event [], sample_event ''A'', sample_event []]"
    using fetch_recent_sample_records [of "[[], ''A'', []]"] by simp
  have d: "consecutive_failures c > 1" by (simp add: c_def)
  have "events (fst (safe_update_events cpython now0 (Body (PList []))
      (Body (PList [sample_record [], sample_record ''A'', sample_record []])) c))
     = [] @ filter (\<lambda>e. ev_id e \<notin> existing_ids_of (events c))
          [sample_event [], sample_event ''A'', sample_event []]"
    using resync_merge_keyed_on_id [of c cpython now0 "Body (PList [])" "[]"
        "Body (PList [sample_record [], sample_record ''A'', sample_record []])"
        "[sample_event [], sample_event ''A'', sample_event []]"] d f r
    by blast
  then show ?thesis
    by (simp add: c_def existing_ids_of_def sample_event_def)
qed

text \<open>
  The claim as written fails when the cache already holds an event with the empty
  identifier: a resync candidate with the empty identifier is then dropped, not
  appended.
\<close>

theorem empty_id_candidate_dropped_counterexample:
  "fetch_recent_gdacs_events cpython now0 (utc_now (now0 - hours 24))
      (Body (PList [sample_record []])) = Inr [sample_event []]
   \<and> ev_id (sample_event []) = []
   \<and> events (fst (safe_update_events cpython now0 (Body (PList []))
        (Body (PList [sample_record []]))
        \<lparr>events = [sample_event []], last_update = None, consecutive_failures = 2\<rparr>))
     = []"
proof -
  have f: "fetch_disaster_data cpython now0 (Body (PList [])) = Inr []"
    using fetch_sample_records [of "[]"] by simp
  have r: "fetch_recent_gdacs_events cpython now0 (utc_now (now0 - hours 24))
      (Body (PList [sample_record []])) = Inr [sample_event []]"
    using fetch_recent_sample_records [of "[[]]"] by simp
  show ?thesis
    by (simp add: r safe_update_events_recovering [OF f _ r] existing_ids_of_def sample_event_def)
qed

end
